theory Spec2Isabelle
  imports Main
begin

section \<open>Strings, label pattern and the base-to-head object (backport.ts, lines 11-70)\<close>

text \<open>
  JavaScript strings are modelled as \<open>string\<close> (lists of \<open>char\<close>), one \<open>char\<close> per code
  unit below 256. Pull-request numbers are natural numbers, printed in decimal as a
  template literal prints an integer.
\<close>

definition BETTERER_RESULTS_PATH :: string where
  "BETTERER_RESULTS_PATH = ''.betterer.results''"

definition backportLabels :: "string list" where
  "backportLabels = [''type/docs'', ''type/bug'', ''product-approved'']"

definition missingLabels :: string where
  "missingLabels = ''missing-labels''"

definition not_space :: "char \<Rightarrow> bool" where
  "not_space c = (c \<noteq> CHR '' '')"

text \<open>
  \<open>labelRegExp = /backport ([^ ]+)(?: ([^ ]+))?$/\<close>. \<open>match_here\<close> is an attempt of the
  pattern at the first position of its argument: the literal \<open>backport \<close>, a non-empty
  run of non-space characters (the base), then either the end of the input, or one space,
  a second non-empty run of non-space characters (the head) and the end of the input.
  Both groups exclude the space, so at a given position there is at most one way to match
  and backtracking finds it or fails.
\<close>

definition match_here :: "string \<Rightarrow> (string \<times> string option) option" where
  "match_here s =
     (if take 9 s = ''backport '' then
        (let r = drop 9 s; base = takeWhile not_space r; r1 = dropWhile not_space r in
         if base = [] then None
         else if r1 = [] then Some (base, None)
         else if tl r1 = [] then None
         else if list_all not_space (tl r1) then Some (base, Some (tl r1))
         else None)
      else None)"

text \<open>\<open>labelRegExp.exec\<close>: the match at the leftmost position that has one.\<close>

fun labelRegExp_exec :: "string \<Rightarrow> (string \<times> string option) option" where
  "labelRegExp_exec [] = None"
| "labelRegExp_exec (c # cs) =
     (case match_here (c # cs) of
        Some m \<Rightarrow> Some m
      | None \<Rightarrow> labelRegExp_exec cs)"

definition labelRegExp_test :: "string \<Rightarrow> bool" where
  "labelRegExp_test s = (case labelRegExp_exec s of None \<Rightarrow> False | Some m \<Rightarrow> True)"

fun show_nat :: "nat \<Rightarrow> string" where
  "show_nat n =
     (if n < 10 then [''0123456789'' ! n]
      else show_nat (n div 10) @ [''0123456789'' ! (n mod 10)])"

declare show_nat.simps [simp del]

text \<open>
  Lines 61-64: the label's base and head after the destructuring
  \<open>[, base, head = `backport-${pullRequestNumber}-to-${base}`] = matches\<close>; the default
  applies when the second group did not take part in the match.
\<close>

definition labelBaseHead :: "nat \<Rightarrow> string \<Rightarrow> (string \<times> string) option" where
  "labelBaseHead pullRequestNumber labelName =
     (case labelRegExp_exec labelName of
        None \<Rightarrow> None
      | Some (base, None) \<Rightarrow>
          Some (base, ''backport-'' @ show_nat pullRequestNumber @ ''-to-'' @ base)
      | Some (base, Some h) \<Rightarrow> Some (base, h))"

text \<open>
  The object \<open>baseToHead\<close> is a plain object literal \<open>{}\<close>. It is modelled by the list of
  its own properties in creation order. An assignment \<open>o[k] = v\<close> replaces the value of an
  own property in place, or creates the property at the end; for the key \<open>__proto__\<close> the
  assignment reaches the accessor inherited from \<open>Object.prototype\<close>, whose setter ignores
  a value that is neither an object nor \<open>null\<close>, so no own property is created.
\<close>

type_synonym jsobject = "(string \<times> string) list"

fun own_put :: "string \<Rightarrow> string \<Rightarrow> jsobject \<Rightarrow> jsobject" where
  "own_put k v [] = [(k, v)]"
| "own_put k v ((k', v') # ps) =
     (if k' = k then (k, v) # ps else (k', v') # own_put k v ps)"

definition obj_set :: "jsobject \<Rightarrow> string \<Rightarrow> string \<Rightarrow> jsobject" where
  "obj_set obj k v = (if k = ''__proto__'' then obj else own_put k v obj)"

text \<open>
  \<open>Object.entries\<close> and \<open>Object.keys\<close> list the own properties whose key is an array
  index (the canonical decimal form of an integer below \<open>2^32 - 1\<close>) first, in ascending
  numeric order, then the other keys in creation order.
\<close>

definition is_digit :: "char \<Rightarrow> bool" where
  "is_digit c = (c \<in> set ''0123456789'')"

definition digit_val :: "char \<Rightarrow> nat" where
  "digit_val c = of_char c - 48"

definition nat_of_digits :: "string \<Rightarrow> nat" where
  "nat_of_digits s = foldl (\<lambda>n c. 10 * n + digit_val c) 0 s"

definition is_array_index :: "string \<Rightarrow> bool" where
  "is_array_index k =
     (case k of
        [] \<Rightarrow> False
      | c # cs \<Rightarrow>
          list_all is_digit k \<and> (if c = CHR ''0'' then cs = [] else True)
          \<and> nat_of_digits k < 4294967295)"

definition Object_entries :: "jsobject \<Rightarrow> (string \<times> string) list" where
  "Object_entries obj =
     sort_key (\<lambda>p. nat_of_digits (fst p)) (filter (\<lambda>p. is_array_index (fst p)) obj)
     @ filter (\<lambda>p. \<not> is_array_index (fst p)) obj"

text \<open>
  What can be thrown: an \<open>Error\<close> with its message, a \<open>RequestError\<close> of the GitHub
  client (an \<open>Error\<close> as well) with its message, or a value that is not an \<open>Error\<close>.
\<close>

datatype exn = Error string | RequestError string | NonError

text \<open>
  Lines 16-33. The payload's \<open>label\<close> is present only on label events; reading \<open>label.name\<close>
  of an absent label raises a \<open>TypeError\<close> (an \<open>Error\<close>, here with a message of the
  engine's).
\<close>

definition getLabelNames :: "string \<Rightarrow> string option \<Rightarrow> string list \<Rightarrow> exn + string list" where
  "getLabelNames action label labels =
     (if action = ''closed'' then Inr labels
      else if action = ''labeled'' then
        (case label of
           Some name \<Rightarrow> Inr [name]
         | None \<Rightarrow> Inl (Error ''Cannot read properties of undefined''))
      else Inr [])"

text \<open>Lines 35-45.\<close>

definition getMatchedBackportLabels :: "string list \<Rightarrow> string list \<Rightarrow> string list" where
  "getMatchedBackportLabels labelsPR bls =
     concat (map (\<lambda>prLabel. filter (\<lambda>backportLabel. backportLabel = prLabel) bls) labelsPR)"

text \<open>Lines 60-67: the body of the \<open>forEach\<close>, and lines 47-70.\<close>

definition addLabelName :: "nat \<Rightarrow> jsobject \<Rightarrow> string \<Rightarrow> jsobject" where
  "addLabelName pullRequestNumber baseToHead labelName =
     (case labelBaseHead pullRequestNumber labelName of
        None \<Rightarrow> baseToHead
      | Some (base, h) \<Rightarrow> obj_set baseToHead base h)"

definition getBackportBaseToHead ::
  "string \<Rightarrow> string option \<Rightarrow> string list \<Rightarrow> nat \<Rightarrow> exn + jsobject" where
  "getBackportBaseToHead action label labels pullRequestNumber =
     (case getLabelNames action label labels of
        Inl e \<Rightarrow> Inl e
      | Inr names \<Rightarrow> Inr (foldl (addLabelName pullRequestNumber) [] names))"

section \<open>External calls and their outcomes\<close>

text \<open>
  Every call that leaves the process (a \<open>git\<close> subprocess, the betterer tool, the clone
  helper, a GitHub REST operation) is recorded, in order, in a trace. The outside world
  is a parameter: \<open>fails w tr c\<close> tells whether the call \<open>c\<close>, issued after the calls
  \<open>tr\<close>, throws, and with which exception; the other fields give what a successful call
  returns. \<open>replace_all w name v s\<close> stands for
  \<open>s.replace(new RegExp(escapeRegExp(name), 'g'), v)\<close>, which no property below depends
  on. Console output (\<open>console.log\<close>, \<open>info\<close>, \<open>logError\<close>, \<open>group\<close>) is not recorded.
\<close>

text \<open>
  The calls, with their arguments in the order of the source:
  \<open>Git cwd args\<close> is \<open>exec('git', args, {cwd})\<close> and \<open>GitOutput cwd args\<close> is
  \<open>getExecOutput\<close>; \<open>Betterer cwd\<close> is \<open>betterer({update: true, cwd})\<close>;
  \<open>CloneRepo token owner repo\<close>; \<open>PullsCreate base body head owner repo title\<close>;
  \<open>IssuesUpdate repo owner issue_number milestone\<close>;
  \<open>DeleteReviewRequest\<close> and \<open>CreateReviewRequest pull_number repo owner reviewers\<close>;
  \<open>AddLabels issue_number labels owner repo\<close>; \<open>CreateComment body issue_number owner repo\<close>;
  \<open>RemoveLabel owner repo issue_number name\<close>; and, on \<open>grafana/grafana-enterprise\<close>,
  \<open>GetBranch branch\<close>, \<open>CreateRef ref sha\<close> and \<open>UpdateRef ref sha force\<close>.
\<close>

record milestone =
  ms_id :: nat
  ms_number :: nat

datatype call =
    Git string "string list"
  | GitOutput string "string list"
  | Betterer string
  | CloneRepo string string string
  | PullsCreate string string string string string string
  | IssuesUpdate string string nat nat
  | DeleteReviewRequest nat string string "string list"
  | CreateReviewRequest nat string string "string list"
  | AddLabels nat "string list" string string
  | CreateComment string nat string string
  | RemoveLabel string string nat string
  | GetBranch string
  | CreateRef string string
  | UpdateRef string string bool

record world =
  fails :: "call list \<Rightarrow> call \<Rightarrow> exn option"
  stdout_of :: "call list \<Rightarrow> string"
  created :: "call list \<Rightarrow> nat \<times> string list option"
  branch_sha :: "call list \<Rightarrow> string"
  replace_all :: "string \<Rightarrow> string \<Rightarrow> string \<Rightarrow> string"

type_synonym 'a io = "call list \<Rightarrow> (exn + 'a) \<times> call list"

definition io_return :: "'a \<Rightarrow> 'a io" where
  "io_return x tr = (Inr x, tr)"

definition io_throw :: "exn \<Rightarrow> 'a io" where
  "io_throw e tr = (Inl e, tr)"

definition io_bind :: "'a io \<Rightarrow> ('a \<Rightarrow> 'b io) \<Rightarrow> 'b io" where
  "io_bind m f tr = (case m tr of (Inl e, tr') \<Rightarrow> (Inl e, tr') | (Inr x, tr') \<Rightarrow> f x tr')"

definition io_seq :: "'a io \<Rightarrow> 'b io \<Rightarrow> 'b io" where
  "io_seq m n = io_bind m (\<lambda>x. n)"

definition io_catch :: "'a io \<Rightarrow> (exn \<Rightarrow> 'a io) \<Rightarrow> 'a io" where
  "io_catch m h tr = (case m tr of (Inl e, tr') \<Rightarrow> h e tr' | (Inr x, tr') \<Rightarrow> (Inr x, tr'))"

definition perform_val :: "world \<Rightarrow> call \<Rightarrow> (call list \<Rightarrow> 'a) \<Rightarrow> 'a io" where
  "perform_val w c f tr =
     (case fails w tr c of
        Some e \<Rightarrow> (Inl e, tr @ [c])
      | None \<Rightarrow> (Inr (f tr), tr @ [c]))"

definition perform :: "world \<Rightarrow> call \<Rightarrow> unit io" where
  "perform w c = perform_val w c (\<lambda>tr. ())"

section \<open>One backport attempt (backport.ts, lines 72-218)\<close>

text \<open>\<open>String.prototype.trim\<close>, on code units below 256.\<close>

definition js_space :: "char \<Rightarrow> bool" where
  "js_space c =
     (c \<in> set [CHR 0x09, CHR 0x0A, CHR 0x0B, CHR 0x0C, CHR 0x0D, CHR 0x20, CHR 0xA0])"

definition trim :: "string \<Rightarrow> string" where
  "trim s = rev (dropWhile js_space (rev (dropWhile js_space s)))"

definition git :: "world \<Rightarrow> string \<Rightarrow> string list \<Rightarrow> unit io" where
  "git w repo args = perform w (Git repo args)"

definition isBettererConflict :: "world \<Rightarrow> string \<Rightarrow> bool io" where
  "isBettererConflict w repo =
     io_bind
       (perform_val w (GitOutput repo [''diff'', ''--name-only'', ''--diff-filter=U''])
          (stdout_of w))
       (\<lambda>stdout. io_return (trim stdout = BETTERER_RESULTS_PATH))"

definition fixBettererConflict :: "world \<Rightarrow> string \<Rightarrow> unit io" where
  "fixBettererConflict w repo =
     io_seq (perform w (Betterer repo))
    (io_seq (git w repo [''add'', BETTERER_RESULTS_PATH])
            (git w repo [''-c'', ''core.editor=true'', ''cherry-pick'', ''--continue'']))"

text \<open>Lines 117-131: the cherry-pick and its handlers.\<close>

definition cherryPick :: "world \<Rightarrow> string \<Rightarrow> string \<Rightarrow> unit io" where
  "cherryPick w repo commitToBackport =
     io_catch (git w repo [''cherry-pick'', ''-x'', commitToBackport])
       (\<lambda>error.
          io_bind (isBettererConflict w repo)
            (\<lambda>conflict.
               if conflict then
                 io_catch (fixBettererConflict w repo)
                   (\<lambda>error'. io_seq (git w repo [''cherry-pick'', ''--abort''])
                                     (io_throw error'))
               else
                 io_seq (git w repo [''cherry-pick'', ''--abort'']) (io_throw error)))"

text \<open>Lines 133-183: push, pull request, milestone, reviewers, labels.\<close>

definition publish ::
  "world \<Rightarrow> string \<Rightarrow> string \<Rightarrow> string \<Rightarrow> string list \<Rightarrow> string \<Rightarrow> string \<Rightarrow> string
     \<Rightarrow> milestone option \<Rightarrow> string option \<Rightarrow> unit io" where
  "publish w base body head labelsToAdd owner repo title ms mergedBy =
     io_seq (git w repo [''push'', ''--set-upstream'', ''origin'', head])
    (io_bind (perform_val w (PullsCreate base body head owner repo title) (created w))
       (\<lambda>createRsp.
          (case createRsp of (pullRequestNumber, requested_reviewers) \<Rightarrow>
             io_seq
               (case ms of
                  None \<Rightarrow> io_return ()
                | Some m \<Rightarrow>
                    if ms_id m \<noteq> 0
                    then perform w (IssuesUpdate repo owner pullRequestNumber (ms_number m))
                    else io_return ())
            (io_seq
               (case requested_reviewers of
                  None \<Rightarrow> io_return ()
                | Some reviewers \<Rightarrow>
                    perform w (DeleteReviewRequest pullRequestNumber repo owner reviewers))
            (io_seq
               (case mergedBy of
                  None \<Rightarrow> io_return ()
                | Some login \<Rightarrow>
                    perform w (CreateReviewRequest pullRequestNumber repo owner [login]))
               (if labelsToAdd \<noteq> []
                then perform w (AddLabels pullRequestNumber labelsToAdd owner repo)
                else io_return ()))))))"

definition backportOnce ::
  "world \<Rightarrow> string \<Rightarrow> string \<Rightarrow> string \<Rightarrow> string \<Rightarrow> string list \<Rightarrow> string \<Rightarrow> string
     \<Rightarrow> string \<Rightarrow> milestone option \<Rightarrow> string option \<Rightarrow> unit io" where
  "backportOnce w base body commitToBackport head labelsToAdd owner repo title ms mergedBy =
     io_seq (git w repo [''switch'', base])
    (io_seq (git w repo [''switch'', ''--create'', head])
    (io_seq (cherryPick w repo commitToBackport)
            (publish w base body head labelsToAdd owner repo title ms mergedBy)))"

definition join_lines :: "string list \<Rightarrow> string" where
  "join_lines ls = (case ls of [] \<Rightarrow> [] | l # r \<Rightarrow> l @ concat (map (\<lambda>x. CHR 0x0A # x) r))"

definition getFailedBackportCommentBody :: "string \<Rightarrow> string \<Rightarrow> string \<Rightarrow> string \<Rightarrow> string" where
  "getFailedBackportCommentBody base commitToBackport errorMessage head =
     join_lines
       [''The backport to `'' @ base @ ''` failed:'',
        ''```'',
        errorMessage,
        ''```'',
        ''To backport manually, run these commands in your terminal:'',
        ''```bash'',
        ''# Fetch latest updates from GitHub'',
        ''git fetch'',
        ''# Create a new branch'',
        ''git switch --create '' @ head @ '' origin/'' @ base,
        ''# Cherry-pick the merged commit of this pull request and resolve the conflicts'',
        ''git cherry-pick -x '' @ commitToBackport,
        ''# Push it to GitHub'',
        ''git push --set-upstream origin '' @ head,
        ''git switch main'',
        ''# Remove the local backport branch'',
        ''git branch -D '' @ head,
        ''```'',
        ''Then, create a pull request where the `base` branch is `'' @ base
          @ ''` and the `compare`/`head` branch is `'' @ head @ ''`.'']"

section \<open>The backport action (backport.ts, lines 220-389)\<close>

text \<open>
  The fields of the webhook payload that \<open>backport\<close> reads. \<open>context.payload\<close> and the
  \<open>payload\<close> argument are the same event. \<open>p_merged_by\<close> is the login of the merging user.
\<close>

record payload =
  p_action :: string
  p_label :: "string option"
  p_labels :: "string list"
  p_merge_commit_sha :: "string option"
  p_merged :: bool
  p_number :: nat
  p_title :: string
  p_milestone :: "milestone option"
  p_merged_by :: "string option"
  p_repo :: string
  p_owner :: string

record backport_args =
  labelsToAdd :: "string list"
  payload :: payload
  titleTemplate :: string
  token :: string
  sender_login :: string

text \<open>Lines 255-260: events other than \<open>closed\<close> pass only for a backport or approval label.\<close>

definition passesLabelGate :: "payload \<Rightarrow> bool" where
  "passesLabelGate p =
     (if p_action p \<noteq> ''closed'' then
        (let payloadLabel = (case p_label p of Some name \<Rightarrow> name | None \<Rightarrow> [])
         in labelRegExp_test payloadLabel \<or> payloadLabel \<in> set backportLabels)
      else True)"

definition missingLabelsCommentBody :: "string \<Rightarrow> string" where
  "missingLabelsCommentBody login =
     join_lines
       [''Hello @'' @ login @ ''!'',
        ''Backport pull requests need to be either:'',
        ''* Pull requests which address bugs,'',
        ''* Urgent fixes which need product approval, in order to get merged,'',
        ''* Docs changes.'' @ [CHR 0x0A],
        ''Please, if the current pull request addresses a bug fix, label it with the `type/bug` label.'',
        ''If it already has the product approval, please add the `product-approved` label. For docs changes, please add the `type/docs` label.'',
        ''If none of the above applies, please consider removing the backport label and target the next major/minor release.'',
        ''Thanks!'']"

definition errorMessageOf :: "exn \<Rightarrow> string" where
  "errorMessageOf error =
     (case error of
        Error m \<Rightarrow> m
      | RequestError m \<Rightarrow> m
      | NonError \<Rightarrow> ''Unknown error while backporting'')"

text \<open>Lines 334-361: body, title and the call of \<open>backportOnce\<close> for one entry.\<close>

definition attempt ::
  "world \<Rightarrow> backport_args \<Rightarrow> string \<Rightarrow> string \<Rightarrow> string \<Rightarrow> string list \<Rightarrow> unit io" where
  "attempt w a commitToBackport base head lta =
     (let p = payload a;
          body = ''Backport '' @ commitToBackport @ '' from #'' @ show_nat (p_number p);
          title = replace_all w ''{{originalTitle}}'' (p_title p)
                    (replace_all w ''{{base}}'' base (titleTemplate a))
      in backportOnce w base body commitToBackport head lta (p_owner p) (p_repo p) title
           (p_milestone p) (p_merged_by p))"

text \<open>Lines 362-386: the handler of the per-branch \<open>try\<close>.\<close>

definition failureComment :: "backport_args \<Rightarrow> string \<Rightarrow> string \<Rightarrow> string \<Rightarrow> exn \<Rightarrow> call" where
  "failureComment a commitToBackport base head error =
     CreateComment
       (getFailedBackportCommentBody base commitToBackport (errorMessageOf error) head)
       (p_number (payload a)) (p_owner (payload a)) (p_repo (payload a))"

definition failureLabel :: "backport_args \<Rightarrow> call" where
  "failureLabel a =
     AddLabels (p_number (payload a)) [''backport-failed''] (p_owner (payload a))
       (p_repo (payload a))"

definition reportFailure ::
  "world \<Rightarrow> backport_args \<Rightarrow> string \<Rightarrow> string \<Rightarrow> string \<Rightarrow> exn \<Rightarrow> unit io" where
  "reportFailure w a commitToBackport base head error =
     io_seq (perform w (failureComment a commitToBackport base head error))
            (perform w (failureLabel a))"

text \<open>Lines 334-387: the body of the loop, for one entry, after \<open>labelsToAdd.push\<close>.\<close>

definition backportEntry ::
  "world \<Rightarrow> backport_args \<Rightarrow> string \<Rightarrow> string \<Rightarrow> string \<Rightarrow> string list \<Rightarrow> unit io" where
  "backportEntry w a commitToBackport base head lta =
     io_catch (attempt w a commitToBackport base head lta)
              (reportFailure w a commitToBackport base head)"

text \<open>
  Lines 333-388: the loop over \<open>Object.entries(backportBaseToHead)\<close>. The array
  \<open>labelsToAdd\<close> is the caller's, and \<open>push\<close> extends it in place in every iteration.
\<close>

fun backportLoop ::
  "world \<Rightarrow> backport_args \<Rightarrow> string list \<Rightarrow> string \<Rightarrow> (string \<times> string) list \<Rightarrow> string list
     \<Rightarrow> unit io" where
  "backportLoop w a matchedLabels commitToBackport [] lta = io_return ()"
| "backportLoop w a matchedLabels commitToBackport ((base, head) # es) lta =
     io_seq (backportEntry w a commitToBackport base head (lta @ matchedLabels))
            (backportLoop w a matchedLabels commitToBackport es (lta @ matchedLabels))"

definition Object_keys :: "jsobject \<Rightarrow> string list" where
  "Object_keys obj = map fst (Object_entries obj)"

text \<open>Lines 309-388.\<close>

definition backportMerged :: "world \<Rightarrow> backport_args \<Rightarrow> string list \<Rightarrow> unit io" where
  "backportMerged w a matchedLabels =
     (let p = payload a in
      if \<not> p_merged p then io_return ()
      else
        (case getBackportBaseToHead (p_action p) (p_label p) (p_labels p) (p_number p) of
           Inl e \<Rightarrow> io_throw e
         | Inr backportBaseToHead \<Rightarrow>
             if length (Object_keys backportBaseToHead) = 0 then io_return ()
             else
               (let commitToBackport =
                      (case p_merge_commit_sha p of None \<Rightarrow> ''null'' | Some sha \<Rightarrow> sha)
                in io_seq (perform w (CloneRepo (token a) (p_owner p) (p_repo p)))
                     (backportLoop w a matchedLabels commitToBackport
                        (Object_entries backportBaseToHead) (labelsToAdd a)))))"

text \<open>Lines 229-389.\<close>

definition backport :: "world \<Rightarrow> backport_args \<Rightarrow> unit io" where
  "backport w a =
     (let p = payload a in
      if \<not> passesLabelGate p then io_return ()
      else
        (let labelsString = p_labels p;
             matchedLabels = getMatchedBackportLabels labelsString backportLabels;
             matches = list_ex labelRegExp_test labelsString
         in
           if matches \<and> length matchedLabels = 0 \<and> missingLabels \<notin> set labelsString
           then
             io_seq
               (perform w
                  (CreateComment (missingLabelsCommentBody (sender_login a))
                     (p_number p) (p_owner p) (p_repo p)))
               (perform w (AddLabels (p_number p) [missingLabels] (p_owner p) (p_repo p)))
           else
             io_seq
               (if matches \<and> length matchedLabels \<noteq> 0 \<and> missingLabels \<in> set labelsString
                then perform w (RemoveLabel (p_owner p) (p_repo p) (p_number p) missingLabels)
                else io_return ())
               (backportMerged w a matchedLabels)))"

section \<open>The enterprise check (unnamed/part_000)\<close>

text \<open>
  The raw values of the action's inputs, as the runner hands them over (the empty string
  for an input that is not set). \<open>core.getInput\<close> returns the raw value with the
  whitespace at both ends removed.
\<close>

record inputs =
  source_branch :: string
  pr_number :: string
  source_sha :: string
  target_branch :: string

definition getInput :: "string \<Rightarrow> string" where
  "getInput raw = trim raw"

text \<open>Lines 47-61: a failed lookup is logged and answered by \<open>null\<close>.\<close>

definition getBranch :: "world \<Rightarrow> string \<Rightarrow> string option io" where
  "getBranch w branch tr =
     (case fails w tr (GetBranch branch) of
        Some err \<Rightarrow> (Inr None, tr @ [GetBranch branch])
      | None \<Rightarrow> (Inr (Some (branch_sha w tr)), tr @ [GetBranch branch]))"

text \<open>Lines 62-85.\<close>

definition createOrUpdateRef ::
  "world \<Rightarrow> string \<Rightarrow> string \<Rightarrow> string \<Rightarrow> string \<Rightarrow> unit io" where
  "createOrUpdateRef w prNumber branch sha sourceSha =
     io_catch
       (perform w
          (CreateRef (''refs/heads/prc-'' @ prNumber @ ''-'' @ sourceSha @ ''/'' @ branch) sha))
       (\<lambda>err.
          (case err of
             RequestError m \<Rightarrow>
               if m = ''Reference already exists''
               then perform w
                      (UpdateRef (''heads/prc-'' @ prNumber @ ''-'' @ sourceSha @ ''/'' @ branch)
                         sha True)
               else io_throw err
           | Error m \<Rightarrow> io_throw err
           | NonError \<Rightarrow> io_throw err))"

text \<open>Lines 11-45.\<close>

definition onTriggered :: "world \<Rightarrow> inputs \<Rightarrow> unit io" where
  "onTriggered w i =
     (let sourceBranch = getInput (source_branch i); prNumber = getInput (pr_number i);
          sourceSha = getInput (source_sha i) in
      if sourceBranch = [] then io_throw (Error ''Missing source branch'')
      else if prNumber = [] then io_throw (Error ''Missing OSS PR number'')
      else if sourceSha = [] then io_throw (Error ''Missing OSS source SHA'')
      else
        io_bind (getBranch w sourceBranch)
          (\<lambda>branch.
             (case branch of
                Some sha \<Rightarrow> createOrUpdateRef w prNumber sourceBranch sha sourceSha
              | None \<Rightarrow>
                  (let targetBranch =
                         (if getInput (target_branch i) = [] then ''main''
                          else getInput (target_branch i))
                   in io_bind (getBranch w targetBranch)
                        (\<lambda>branch.
                           (case branch of
                              Some sha \<Rightarrow>
                                createOrUpdateRef w prNumber sourceBranch sha sourceSha
                            | None \<Rightarrow>
                                io_bind (getBranch w ''main'')
                                  (\<lambda>branch.
                                     (case branch of
                                        None \<Rightarrow>
                                          io_throw (Error ''error retrieving main branch'')
                                      | Some sha \<Rightarrow>
                                          createOrUpdateRef w prNumber sourceBranch sha
                                            sourceSha))))))))"

section \<open>Notions used in the statements\<close>

subsection \<open>Calls by name\<close>

text \<open>The calls of the authorization step (lines 277-306) and the clone (line 331).\<close>

definition rejectionComment :: "backport_args \<Rightarrow> call" where
  "rejectionComment a =
     CreateComment (missingLabelsCommentBody (sender_login a))
       (p_number (payload a)) (p_owner (payload a)) (p_repo (payload a))"

definition markMissing :: "backport_args \<Rightarrow> call" where
  "markMissing a =
     AddLabels (p_number (payload a)) [missingLabels] (p_owner (payload a)) (p_repo (payload a))"

definition unmarkMissing :: "backport_args \<Rightarrow> call" where
  "unmarkMissing a =
     RemoveLabel (p_owner (payload a)) (p_repo (payload a)) (p_number (payload a)) missingLabels"

definition cloneCall :: "backport_args \<Rightarrow> call" where
  "cloneCall a = CloneRepo (token a) (p_owner (payload a)) (p_repo (payload a))"

text \<open>The commit to backport (line 328).\<close>

definition commitOf :: "backport_args \<Rightarrow> string" where
  "commitOf a = (case p_merge_commit_sha (payload a) of None \<Rightarrow> ''null'' | Some sha \<Rightarrow> sha)"

text \<open>The \<open>git\<close> calls of lines 101-131.\<close>

definition pickCall :: "string \<Rightarrow> string \<Rightarrow> call" where
  "pickCall repo c = Git repo [''cherry-pick'', ''-x'', c]"

definition conflictsCall :: "string \<Rightarrow> call" where
  "conflictsCall repo = GitOutput repo [''diff'', ''--name-only'', ''--diff-filter=U'']"

definition stageCall :: "string \<Rightarrow> call" where
  "stageCall repo = Git repo [''add'', BETTERER_RESULTS_PATH]"

definition continueCall :: "string \<Rightarrow> call" where
  "continueCall repo = Git repo [''-c'', ''core.editor=true'', ''cherry-pick'', ''--continue'']"

definition abortCall :: "string \<Rightarrow> call" where
  "abortCall repo = Git repo [''cherry-pick'', ''--abort'']"

text \<open>The calls of the enterprise check, and the branch of its second lookup (line 32).\<close>

definition createRefCall :: "inputs \<Rightarrow> string \<Rightarrow> call" where
  "createRefCall i sha =
     CreateRef
       (''refs/heads/prc-'' @ getInput (pr_number i) @ ''-'' @ getInput (source_sha i) @ ''/''
          @ getInput (source_branch i))
       sha"

definition updateRefCall :: "inputs \<Rightarrow> string \<Rightarrow> call" where
  "updateRefCall i sha =
     UpdateRef
       (''heads/prc-'' @ getInput (pr_number i) @ ''-'' @ getInput (source_sha i) @ ''/''
          @ getInput (source_branch i))
       sha True"

definition targetOrMain :: "inputs \<Rightarrow> string" where
  "targetOrMain i =
     (if getInput (target_branch i) = [] then ''main'' else getInput (target_branch i))"

subsection \<open>Kinds of calls, traces and worlds\<close>

text \<open>The calls of a backport attempt: the clone, a \<open>git\<close> command, betterer, a new pull request.\<close>

fun is_backport_call :: "call \<Rightarrow> bool" where
  "is_backport_call (Git repo args) = True"
| "is_backport_call (GitOutput repo args) = True"
| "is_backport_call (Betterer repo) = True"
| "is_backport_call (CloneRepo t ow repo) = True"
| "is_backport_call (PullsCreate b bd h ow repo ti) = True"
| "is_backport_call c = False"

text \<open>The calls that \<open>backportOnce\<close> can issue.\<close>

fun is_attempt_call :: "call \<Rightarrow> bool" where
  "is_attempt_call (Git repo args) = True"
| "is_attempt_call (GitOutput repo args) = True"
| "is_attempt_call (Betterer repo) = True"
| "is_attempt_call (PullsCreate b bd h ow repo ti) = True"
| "is_attempt_call (IssuesUpdate repo ow n m) = True"
| "is_attempt_call (DeleteReviewRequest n repo ow rs) = True"
| "is_attempt_call (CreateReviewRequest n repo ow rs) = True"
| "is_attempt_call (AddLabels n ls ow repo) = True"
| "is_attempt_call c = False"

text \<open>
  \<open>appends P m\<close>: from any trace, \<open>m\<close> only adds calls at the end, and every call it adds
  satisfies \<open>P\<close>.
\<close>

definition appends :: "(call \<Rightarrow> bool) \<Rightarrow> 'a io \<Rightarrow> bool" where
  "appends P m = (\<forall>tr. \<exists>ys. snd (m tr) = tr @ ys \<and> list_all P ys)"

text \<open>A world in which the two calls that report a failed attempt always succeed.\<close>

definition reports_arrive :: "world \<Rightarrow> backport_args \<Rightarrow> bool" where
  "reports_arrive w a =
     (\<forall>tr. fails w tr (failureLabel a) = None
         \<and> (\<forall>c b h e. fails w tr (failureComment a c b h e) = None))"

text \<open>
  The heads that the labels \<open>names\<close>, in order, give for the base \<open>k\<close>: the head of every
  label that matches the pattern with base \<open>k\<close>.
\<close>

definition heads_for :: "nat \<Rightarrow> string \<Rightarrow> string list \<Rightarrow> string list" where
  "heads_for n k names =
     map snd (filter (\<lambda>p. fst p = k) (List.map_filter (labelBaseHead n) names))"

subsection \<open>Concrete inputs\<close>

text \<open>
  A world in which no call fails, where every listing of unmerged files is empty and a
  new pull request has no requested reviewers; and the event of pull request 7 of
  \<open>org/grafana\<close>, merged as commit \<open>abc\<close>, with a given action, event label and label
  set. The title template has no placeholder, so the title is the template.
\<close>

definition ex_world :: world where
  "ex_world =
     \<lparr>fails = (\<lambda>tr c. None), stdout_of = (\<lambda>tr. []), created = (\<lambda>tr. (100 + length tr, None)),
      branch_sha = (\<lambda>tr. ''5e1f''), replace_all = (\<lambda>name v s. s)\<rparr>"

definition ex_payload :: "string \<Rightarrow> string option \<Rightarrow> string list \<Rightarrow> payload" where
  "ex_payload act lbl lbls =
     \<lparr>p_action = act, p_label = lbl, p_labels = lbls, p_merge_commit_sha = Some ''abc'',
      p_merged = True, p_number = 7, p_title = ''Fix'', p_milestone = None,
      p_merged_by = None, p_repo = ''grafana'', p_owner = ''org''\<rparr>"

definition ex_args :: "string \<Rightarrow> string option \<Rightarrow> string list \<Rightarrow> backport_args" where
  "ex_args act lbl lbls =
     \<lparr>labelsToAdd = [''backport''], payload = ex_payload act lbl lbls,
      titleTemplate = ''Backport'', token = ''t'', sender_login = ''dev''\<rparr>"

text \<open>
  Worlds in which every \<open>git\<close> command fails; in the second one every comment call
  fails as well.
\<close>

definition ex_world_git_down :: world where
  "ex_world_git_down =
     ex_world\<lparr>fails := (\<lambda>tr c. case c of Git repo args \<Rightarrow> Some (Error ''git failed'') | _ \<Rightarrow> None)\<rparr>"

definition ex_world_down :: world where
  "ex_world_down =
     ex_world\<lparr>fails := (\<lambda>tr c. case c of
                               Git repo args \<Rightarrow> Some (Error ''git failed'')
                             | CreateComment b n ow repo \<Rightarrow> Some (RequestError ''rate limit'')
                             | _ \<Rightarrow> None)\<rparr>"

text \<open>
  Worlds in which the cherry-pick of \<open>abc\<close> in \<open>grafana\<close> fails and the listing of the
  unmerged files is \<open>listing\<close>; in the second one the listing is \<open>.betterer.results\<close> and
  betterer fails as well.
\<close>

definition ex_world_conflict :: "string \<Rightarrow> world" where
  "ex_world_conflict listing =
     ex_world
       \<lparr>fails := (\<lambda>tr c. if c = pickCall ''grafana'' ''abc'' then Some (Error ''conflict'')
                        else None),
        stdout_of := (\<lambda>tr. listing)\<rparr>"

definition ex_world_betterer_down :: world where
  "ex_world_betterer_down =
     ex_world
       \<lparr>fails := (\<lambda>tr c. if c = pickCall ''grafana'' ''abc'' then Some (Error ''conflict'')
                        else if c = Betterer ''grafana'' then Some (Error ''betterer crashed'')
                        else None),
        stdout_of := (\<lambda>tr. ''.betterer.results'' @ [CHR 0x0A])\<rparr>"

text \<open>
  Inputs of an enterprise check, padded with whitespace and with a blank
  \<open>target_branch\<close>; the same inputs with a blank \<open>source_branch\<close>; a world in which
  only the branch \<open>main\<close> exists and every ref does; and a world in which every branch
  and every ref exists and no ref can be updated.
\<close>

definition ex_inputs :: inputs where
  "ex_inputs =
     \<lparr>source_branch = '' feature'', pr_number = ''12 '', source_sha = ''ff00'' @ [CHR 0x0A],
      target_branch = ''  ''\<rparr>"

definition ex_inputs_blank :: inputs where
  "ex_inputs_blank = ex_inputs\<lparr>source_branch := ''  ''\<rparr>"

definition ex_world_ref_locked :: world where
  "ex_world_ref_locked =
     ex_world
       \<lparr>fails := (\<lambda>tr c. case c of
                         CreateRef r sha \<Rightarrow> Some (RequestError ''Reference already exists'')
                       | UpdateRef r sha force \<Rightarrow> Some (RequestError ''Server Error'')
                       | _ \<Rightarrow> None)\<rparr>"

definition ex_world_ref_exists :: world where
  "ex_world_ref_exists =
     ex_world
       \<lparr>fails := (\<lambda>tr c. case c of
                         GetBranch b \<Rightarrow> if b = ''main'' then None else Some (RequestError ''Not Found'')
                       | CreateRef r sha \<Rightarrow> Some (RequestError ''Reference already exists'')
                       | _ \<Rightarrow> None)\<rparr>"

section \<open>Properties\<close>

lemmas io_defs = io_return_def io_throw_def io_bind_def io_seq_def io_catch_def
  perform_def perform_val_def

lemmas label_defs = labelRegExp_test_def match_here_def not_space_def
  getMatchedBackportLabels_def backportLabels_def missingLabels_def passesLabelGate_def

lemmas map_defs = getBackportBaseToHead_def getLabelNames_def addLabelName_def
  labelBaseHead_def obj_set_def

lemmas ex_defs = ex_world_def ex_payload_def ex_args_def

subsection \<open>The label pattern\<close>

lemma match_here_base:
  assumes "base \<noteq> []" "list_all not_space base"
  shows "match_here (''backport '' @ base) = Some (base, None)"
proof -
  have tw: "takeWhile not_space base = base" and dw: "dropWhile not_space base = []"
    using assms by (simp_all add: list_all_iff)
  show ?thesis using assms by (simp add: match_here_def tw dw)
qed

lemma match_here_base_head:
  assumes "base \<noteq> []" "list_all not_space base" "h \<noteq> []" "list_all not_space h"
  shows "match_here (''backport '' @ base @ '' '' @ h) = Some (base, Some h)"
proof -
  have tw: "takeWhile not_space (base @ CHR '' '' # h) = base"
    using assms by (simp add: list_all_iff not_space_def)
  have dw: "dropWhile not_space (base @ CHR '' '' # h) = CHR '' '' # h"
    using assms by (simp add: list_all_iff not_space_def)
  show ?thesis using assms by (simp add: match_here_def tw dw)
qed

lemma exec_base:
  assumes "base \<noteq> []" "list_all not_space base"
  shows "labelRegExp_exec (''backport '' @ base) = Some (base, None)"
  using match_here_base[OF assms] by simp


text \<open>
  \<open>match_here\<close> accepts exactly the strings of the pattern's form, and \<open>labelRegExp_exec\<close>
  returns the match at the leftmost position that has one.
\<close>

lemma match_here_iff:
  "match_here s = Some (b, ho) \<longleftrightarrow>
     b \<noteq> [] \<and> CHR '' '' \<notin> set b
     \<and> (case ho of
          None \<Rightarrow> s = ''backport '' @ b
        | Some h \<Rightarrow> h \<noteq> [] \<and> CHR '' '' \<notin> set h \<and> s = ''backport '' @ b @ '' '' @ h)"
proof
  assume m: "match_here s = Some (b, ho)"
  let ?r = "drop 9 s"
  from m have pre: "take 9 s = ''backport ''"
    by (auto simp: match_here_def split: if_splits)
  then have s: "s = ''backport '' @ ?r"
    by (metis append_take_drop_id)
  have r: "?r = takeWhile not_space ?r @ dropWhile not_space ?r" by simp
  from m pre have b: "b = takeWhile not_space ?r" and bne: "b \<noteq> []"
    by (auto simp: match_here_def Let_def split: if_splits)
  have bs: "CHR '' '' \<notin> set b"
    unfolding b using set_takeWhileD[of "CHR '' ''" not_space ?r] by (auto simp: not_space_def)
  show "b \<noteq> [] \<and> CHR '' '' \<notin> set b
     \<and> (case ho of
          None \<Rightarrow> s = ''backport '' @ b
        | Some h \<Rightarrow> h \<noteq> [] \<and> CHR '' '' \<notin> set h \<and> s = ''backport '' @ b @ '' '' @ h)"
  proof (cases "dropWhile not_space ?r = []")
    case True
    with m pre have "ho = None" by (auto simp: match_here_def Let_def split: if_splits)
    moreover from True have "takeWhile not_space ?r = ?r" by (simp add: takeWhile_eq_all_conv)
    with b have "?r = b" by simp
    ultimately show ?thesis using s bne bs by simp
  next
    case False
    with m pre have h: "ho = Some (tl (dropWhile not_space ?r))"
      "tl (dropWhile not_space ?r) \<noteq> []" "list_all not_space (tl (dropWhile not_space ?r))"
      by (auto simp: match_here_def Let_def split: if_splits)
    from False have "hd (dropWhile not_space ?r) = CHR '' ''"
      using hd_dropWhile[of not_space ?r] by (simp add: not_space_def)
    with False have "dropWhile not_space ?r = CHR '' '' # tl (dropWhile not_space ?r)"
      by (metis list.collapse)
    with r b have "?r = b @ CHR '' '' # tl (dropWhile not_space ?r)" by metis
    with s have "s = ''backport '' @ b @ '' '' @ tl (dropWhile not_space ?r)" by simp
    then show ?thesis using h bne bs by (auto simp: list_all_iff not_space_def)
  qed
next
  assume a: "b \<noteq> [] \<and> CHR '' '' \<notin> set b
     \<and> (case ho of
          None \<Rightarrow> s = ''backport '' @ b
        | Some h \<Rightarrow> h \<noteq> [] \<and> CHR '' '' \<notin> set h \<and> s = ''backport '' @ b @ '' '' @ h)"
  then have b: "b \<noteq> []" "list_all not_space b" by (auto simp: list_all_iff not_space_def)
  show "match_here s = Some (b, ho)"
  proof (cases ho)
    case None
    with a match_here_base[OF b] show ?thesis by simp
  next
    case (Some h)
    with a have "h \<noteq> []" "list_all not_space h" "s = ''backport '' @ b @ '' '' @ h"
      by (auto simp: list_all_iff not_space_def)
    with match_here_base_head[OF b this(1,2)] Some show ?thesis by simp
  qed
qed

lemma exec_leftmost:
  "labelRegExp_exec s = Some m \<longleftrightarrow>
     (\<exists>k \<le> length s. match_here (drop k s) = Some m
        \<and> (\<forall>j < k. match_here (drop j s) = None))"
proof (induction s)
  case Nil
  show ?case by (simp add: match_here_def)
next
  case (Cons c cs)
  show ?case
  proof (cases "match_here (c # cs)")
    case (Some m')
    have "(\<exists>k \<le> length (c # cs). match_here (drop k (c # cs)) = Some m
        \<and> (\<forall>j < k. match_here (drop j (c # cs)) = None)) \<longleftrightarrow> m' = m"
    proof
      assume "\<exists>k \<le> length (c # cs). match_here (drop k (c # cs)) = Some m
        \<and> (\<forall>j < k. match_here (drop j (c # cs)) = None)"
      then obtain k where k: "match_here (drop k (c # cs)) = Some m"
        "\<forall>j < k. match_here (drop j (c # cs)) = None" by blast
      have "k = 0"
      proof (rule ccontr)
        assume "k \<noteq> 0"
        then have "match_here (drop 0 (c # cs)) = None" using k(2) by blast
        with Some show False by simp
      qed
      with k(1) Some show "m' = m" by simp
    next
      assume "m' = m"
      with Some have "match_here (drop 0 (c # cs)) = Some m
        \<and> (\<forall>j < 0. match_here (drop j (c # cs)) = None)" by simp
      then show "\<exists>k \<le> length (c # cs). match_here (drop k (c # cs)) = Some m
        \<and> (\<forall>j < k. match_here (drop j (c # cs)) = None)" by blast
    qed
    with Some show ?thesis by simp
  next
    case None
    have "(\<exists>k \<le> length (c # cs). match_here (drop k (c # cs)) = Some m
        \<and> (\<forall>j < k. match_here (drop j (c # cs)) = None))
      \<longleftrightarrow> (\<exists>k \<le> length cs. match_here (drop k cs) = Some m
        \<and> (\<forall>j < k. match_here (drop j cs) = None))"
    proof
      assume "\<exists>k \<le> length (c # cs). match_here (drop k (c # cs)) = Some m
        \<and> (\<forall>j < k. match_here (drop j (c # cs)) = None)"
      then obtain k where k: "k \<le> length (c # cs)" "match_here (drop k (c # cs)) = Some m"
        "\<forall>j < k. match_here (drop j (c # cs)) = None" by blast
      from k(2) None obtain k' where k': "k = Suc k'" by (cases k) auto
      have "\<forall>j < k'. match_here (drop j cs) = None"
      proof (intro allI impI)
        fix j assume "j < k'"
        then have "Suc j < k" using k' by simp
        with k(3) have "match_here (drop (Suc j) (c # cs)) = None" by blast
        then show "match_here (drop j cs) = None" by simp
      qed
      with k k' show "\<exists>k \<le> length cs. match_here (drop k cs) = Some m
        \<and> (\<forall>j < k. match_here (drop j cs) = None)" by auto
    next
      assume "\<exists>k \<le> length cs. match_here (drop k cs) = Some m
        \<and> (\<forall>j < k. match_here (drop j cs) = None)"
      then obtain k where k: "k \<le> length cs" "match_here (drop k cs) = Some m"
        "\<forall>j < k. match_here (drop j cs) = None" by blast
      have "\<forall>j < Suc k. match_here (drop j (c # cs)) = None"
      proof (intro allI impI)
        fix j assume j: "j < Suc k"
        show "match_here (drop j (c # cs)) = None"
        proof (cases j)
          case 0
          with None show ?thesis by simp
        next
          case (Suc j')
          with j k(3) show ?thesis by simp
        qed
      qed
      with k show "\<exists>k \<le> length (c # cs). match_here (drop k (c # cs)) = Some m
        \<and> (\<forall>j < k. match_here (drop j (c # cs)) = None)"
        by (intro exI[of _ "Suc k"]) simp
    qed
    with None Cons show ?thesis by simp
  qed
qed

text \<open>\<open>show_nat\<close> writes the decimal digits of its argument.\<close>

lemma digit_val_digit: "k < 10 \<Longrightarrow> digit_val (''0123456789'' ! k) = k"
proof -
  assume "k < 10"
  then have "k \<in> {0, 1, 2, 3, 4, 5, 6, 7, 8, 9}" by auto
  then show ?thesis by (auto simp: digit_val_def)
qed

lemma nat_of_digits_snoc: "nat_of_digits (s @ [c]) = 10 * nat_of_digits s + digit_val c"
  by (simp add: nat_of_digits_def)

lemma nat_of_digits_show_nat: "nat_of_digits (show_nat n) = n"
proof (induction n rule: show_nat.induct)
  case (1 n)
  show ?case
  proof (cases "n < 10")
    case True
    then show ?thesis
      by (subst show_nat.simps) (simp add: nat_of_digits_def digit_val_digit)
  next
    case False
    with 1 have "nat_of_digits (show_nat (n div 10)) = n div 10" by simp
    with False show ?thesis
      by (subst show_nat.simps) (simp add: nat_of_digits_snoc digit_val_digit)
  qed
qed

lemma digit_in_digits: "k < 10 \<Longrightarrow> ''0123456789'' ! k \<in> set ''0123456789''"
proof -
  assume "k < 10"
  then have "k \<in> {0, 1, 2, 3, 4, 5, 6, 7, 8, 9}" by auto
  then show ?thesis by auto
qed

lemma show_nat_nonempty: "show_nat n \<noteq> []"
  by (subst show_nat.simps) simp

lemma show_nat_digits: "set (show_nat n) \<subseteq> set ''0123456789''"
proof (induction n rule: show_nat.induct)
  case (1 n)
  show ?case
  proof (cases "n < 10")
    case True
    then show ?thesis using digit_in_digits[of n] by (subst show_nat.simps) simp
  next
    case False
    with 1 have "set (show_nat (n div 10)) \<subseteq> set ''0123456789''" by simp
    moreover have "''0123456789'' ! (n mod 10) \<in> set ''0123456789''"
      by (rule digit_in_digits) simp
    ultimately show ?thesis using False by (subst show_nat.simps) simp
  qed
qed

lemma show_nat_value:
  "foldl (\<lambda>a c. 10 * a + (of_char c - 48)) (0::nat) (show_nat n) = n"
  using nat_of_digits_show_nat[of n] by (simp add: nat_of_digits_def digit_val_def)

lemma show_nat_canonical: "hd (show_nat n) = CHR ''0'' \<Longrightarrow> show_nat n = ''0''"
proof (induction n rule: show_nat.induct)
  case (1 n)
  show ?case
  proof (cases "n < 10")
    case True
    then have s: "show_nat n = [''0123456789'' ! n]" by (subst show_nat.simps) simp
    with "1.prems" show ?thesis by simp
  next
    case False
    then have s: "show_nat n = show_nat (n div 10) @ [''0123456789'' ! (n mod 10)]"
      by (subst show_nat.simps) simp
    with "1.prems" have "hd (show_nat (n div 10)) = CHR ''0''"
      by (simp add: show_nat_nonempty)
    with 1 False have "show_nat (n div 10) = ''0''" by simp
    then have "nat_of_digits (show_nat (n div 10)) = 0"
      by (simp add: nat_of_digits_def digit_val_def)
    then have "n div 10 = 0" by (simp add: nat_of_digits_show_nat)
    with False show ?thesis by simp
  qed
qed



subsection \<open>The base-to-head object\<close>

lemma map_of_own_put: "map_of (own_put k v obj) = (map_of obj)(k \<mapsto> v)"
  by (induction obj) (auto simp: fun_eq_iff)

lemma keys_own_put: "fst ` set (own_put k v obj) = insert k (fst ` set obj)"
  by (induction obj) (force split: if_splits)+

lemma distinct_own_put:
  "distinct (map fst obj) \<Longrightarrow> distinct (map fst (own_put k v obj))"
  by (induction obj) (auto simp: keys_own_put)

lemma map_of_obj_set:
  "map_of (obj_set obj k v) = (if k = ''__proto__'' then map_of obj else (map_of obj)(k \<mapsto> v))"
  by (simp add: obj_set_def map_of_own_put)

lemma distinct_obj_set:
  "distinct (map fst obj) \<Longrightarrow> distinct (map fst (obj_set obj k v))"
  by (simp add: obj_set_def distinct_own_put)

lemma distinct_addLabelName:
  "distinct (map fst obj) \<Longrightarrow> distinct (map fst (addLabelName n obj l))"
  by (auto simp: addLabelName_def distinct_obj_set split: option.splits)

lemma distinct_baseToHead:
  "distinct (map fst obj) \<Longrightarrow> distinct (map fst (foldl (addLabelName n) obj names))"
  by (induction names arbitrary: obj) (simp_all add: distinct_addLabelName)

lemma heads_for_snoc:
  "heads_for n k (names @ [l]) =
     heads_for n k names
     @ (case labelBaseHead n l of None \<Rightarrow> [] | Some (b, h) \<Rightarrow> if b = k then [h] else [])"
  by (auto simp: heads_for_def List.map_filter_def split: option.splits)

lemma baseToHead_lookup:
  "map_of (foldl (addLabelName n) obj names) k =
     (if k = ''__proto__'' \<or> heads_for n k names = [] then map_of obj k
      else Some (last (heads_for n k names)))"
proof (induction names rule: rev_induct)
  case Nil
  show ?case by (simp add: heads_for_def List.map_filter_def)
next
  case (snoc l names)
  show ?case
  proof (cases "labelBaseHead n l")
    case None
    then show ?thesis using snoc by (simp add: addLabelName_def heads_for_snoc)
  next
    case (Some p)
    obtain b h where p: "p = (b, h)" by (cases p)
    show ?thesis using snoc Some p
      by (auto simp: addLabelName_def heads_for_snoc map_of_obj_set)
  qed
qed

text \<open>
  For \<open>closed\<close> the object has one property for every base other than \<open>__proto__\<close> that
  some label of the pull request names, holding the head of the last such label; for
  \<open>labeled\<close> only the event's label is read; for any other action the object is empty.
\<close>

lemma getBackportBaseToHead_closed:
  "\<exists>obj. getBackportBaseToHead ''closed'' label labels n = Inr obj \<and> distinct (map fst obj)
     \<and> (\<forall>k. map_of obj k =
          (if k = ''__proto__'' \<or> heads_for n k labels = [] then None
           else Some (last (heads_for n k labels))))"
  by (simp add: getBackportBaseToHead_def getLabelNames_def baseToHead_lookup distinct_baseToHead)

lemma getBackportBaseToHead_labeled:
  "getBackportBaseToHead ''labeled'' (Some l) labels n = Inr (addLabelName n [] l)"
  by (simp add: getBackportBaseToHead_def getLabelNames_def)

lemma getBackportBaseToHead_other:
  "action \<noteq> ''closed'' \<Longrightarrow> action \<noteq> ''labeled''
     \<Longrightarrow> getBackportBaseToHead action label labels n = Inr []"
  by (simp add: getBackportBaseToHead_def getLabelNames_def)

text \<open>
  A \<open>labeled\<close> event whose label is \<open>backport <base>\<close>, for a base other than
  \<open>__proto__\<close>, gives the map with the single entry of that base and its derived head.
\<close>

lemma labeled_single_entry:
  assumes "base \<noteq> []" and "CHR '' '' \<notin> set base" and "base \<noteq> ''__proto__''"
  shows "getBackportBaseToHead ''labeled'' (Some (''backport '' @ base)) labels n
           = Inr [(base, ''backport-'' @ show_nat n @ ''-to-'' @ base)]"
proof -
  have "list_all not_space base"
    using assms(2) by (auto simp: list_all_iff not_space_def)
  from exec_base[OF assms(1) this] assms(3) show ?thesis
    unfolding getBackportBaseToHead_labeled addLabelName_def labelBaseHead_def obj_set_def
    by simp
qed




text \<open>
  C1. The claim: for \<open>closed\<close> the map has an entry for every label that matches the
  pattern, keyed by the base. At the label \<open>backport __proto__\<close> the pattern matches with
  base \<open>__proto__\<close> and head \<open>backport-7-to-__proto__\<close>, and the object that
  \<open>getBackportBaseToHead\<close> returns has no property at all.
\<close>

theorem proto_label_dropped:
  "labelBaseHead 7 ''backport __proto__'' = Some (''__proto__'', ''backport-7-to-__proto__'')
   \<and> getBackportBaseToHead ''closed'' None [''backport __proto__''] 7 = Inr []"
  by (simp add: map_defs match_here_def not_space_def show_nat.simps)

subsection \<open>Authorization, merge state and the empty map\<close>

lemma length_Object_entries: "length (Object_entries obj) = length obj"
  by (simp add: Object_entries_def sum_length_filter_compl)

lemma Object_keys_empty: "(Object_keys obj = []) = (obj = [])"
  using length_Object_entries[of obj] by (auto simp: Object_keys_def simp del: length_0_conv)

lemma backportMerged_unmerged:
  "\<not> p_merged (payload a) \<Longrightarrow> backportMerged w a ml = io_return ()"
  by (simp add: backportMerged_def)

lemma backportMerged_empty:
  "getBackportBaseToHead (p_action (payload a)) (p_label (payload a))
     (p_labels (payload a)) (p_number (payload a)) = Inr []
   \<Longrightarrow> backportMerged w a ml = io_return ()"
  by (simp add: backportMerged_def Let_def Object_keys_empty)

lemma backportMerged_nonempty:
  "p_merged (payload a) \<Longrightarrow>
   getBackportBaseToHead (p_action (payload a)) (p_label (payload a))
     (p_labels (payload a)) (p_number (payload a)) = Inr obj \<Longrightarrow> obj \<noteq> []
   \<Longrightarrow> backportMerged w a ml =
         io_seq (perform w (cloneCall a))
           (backportLoop w a ml (commitOf a) (Object_entries obj) (labelsToAdd a))"
  by (simp add: backportMerged_def Let_def Object_keys_empty cloneCall_def commitOf_def)

text \<open>
  C7. When the pull request's \<open>merged\<close> flag is false, the invocation issues no call of a
  backport attempt (no clone, no \<open>git\<close> command, no betterer run, no pull request),
  whatever the labels and whatever the outside world answers.
\<close>

theorem unmerged_no_attempt:
  assumes "\<not> p_merged (payload a)"
  shows "filter is_backport_call (snd (backport w a [])) = []"
  using assms
  by (simp add: backport_def backportMerged_unmerged Let_def io_defs split: option.splits)

theorem unmerged_no_attempt_witness:
  "filter is_backport_call
     (snd (backport ex_world
        ((ex_args ''closed'' None [''backport v9.2.x'', ''type/bug''])
           \<lparr>payload := (ex_payload ''closed'' None [''backport v9.2.x'', ''type/bug''])
              \<lparr>p_merged := False\<rparr>\<rparr>) [])) = []"
  using unmerged_no_attempt[of "(ex_args ''closed'' None [''backport v9.2.x'', ''type/bug''])
           \<lparr>payload := (ex_payload ''closed'' None [''backport v9.2.x'', ''type/bug''])
              \<lparr>p_merged := False\<rparr>\<rparr>" ex_world]
  by (simp add: ex_defs)

text \<open>
  C8, as amended. When the resolved map is empty, the calls of the invocation are among
  the three of the authorization step (the rejection comment, adding \<open>missing-labels\<close>,
  removing \<open>missing-labels\<close>); it issues no call of a backport attempt.
\<close>

theorem empty_map_authorization_only:
  assumes "getBackportBaseToHead (p_action (payload a)) (p_label (payload a))
             (p_labels (payload a)) (p_number (payload a)) = Inr []"
  shows "set (snd (backport w a [])) \<subseteq> {rejectionComment a, markMissing a, unmarkMissing a}
       \<and> filter is_backport_call (snd (backport w a [])) = []"
  using assms
  by (simp add: backport_def backportMerged_empty Let_def io_defs
      rejectionComment_def markMissing_def unmarkMissing_def split: option.splits)

theorem empty_map_authorization_only_witness:
  "set (snd (backport ex_world
          (ex_args ''unlabeled'' (Some ''type/bug'') [''backport v9.2.x'']) []))
     \<subseteq> {rejectionComment (ex_args ''unlabeled'' (Some ''type/bug'') [''backport v9.2.x'']),
        markMissing (ex_args ''unlabeled'' (Some ''type/bug'') [''backport v9.2.x'']),
        unmarkMissing (ex_args ''unlabeled'' (Some ''type/bug'') [''backport v9.2.x''])}
   \<and> filter is_backport_call
        (snd (backport ex_world
          (ex_args ''unlabeled'' (Some ''type/bug'') [''backport v9.2.x'']) [])) = []"
  using empty_map_authorization_only[of
      "ex_args ''unlabeled'' (Some ''type/bug'') [''backport v9.2.x'']" ex_world]
  by (simp add: ex_args_def ex_payload_def getBackportBaseToHead_def getLabelNames_def)

text \<open>
  C8, as stated, fails: \<open>type/bug\<close> is added to a merged pull request that carries a
  backport label and \<open>missing-labels\<close>. The map of a \<open>labeled\<close> event is built from the
  added label alone and is empty, and the invocation removes \<open>missing-labels\<close>.
\<close>

theorem empty_map_side_effect:
  "getBackportBaseToHead ''labeled'' (Some ''type/bug'')
     [''backport v9.2.x'', ''missing-labels'', ''type/bug''] 7 = Inr []
   \<and> backport ex_world
       (ex_args ''labeled'' (Some ''type/bug'')
          [''backport v9.2.x'', ''missing-labels'', ''type/bug'']) []
     = (Inr (), [RemoveLabel ''org'' ''grafana'' 7 ''missing-labels''])"
  by (simp add: backport_def backportMerged_def Let_def io_defs ex_defs label_defs map_defs
      Object_keys_def Object_entries_def)

text \<open>
  C3, as amended. For an event that passes the label gate of lines 255-260 and whose
  label set has a label matching the backport pattern: with no approval label and no
  \<open>missing-labels\<close>, the invocation posts the rejection comment, adds \<open>missing-labels\<close>
  when the comment call succeeded, and does nothing else; with an approval label and
  \<open>missing-labels\<close>, it removes \<open>missing-labels\<close> and, when that call succeeded, goes
  on with the merge check and the backport.
\<close>

theorem authorization_step:
  assumes "passesLabelGate (payload a)"
    and "list_ex labelRegExp_test (p_labels (payload a))"
  shows "(getMatchedBackportLabels (p_labels (payload a)) backportLabels = []
          \<and> missingLabels \<notin> set (p_labels (payload a))
          \<longrightarrow> snd (backport w a []) =
                (if fails w [] (rejectionComment a) = None
                 then [rejectionComment a, markMissing a] else [rejectionComment a]))
       \<and> (getMatchedBackportLabels (p_labels (payload a)) backportLabels \<noteq> []
          \<and> missingLabels \<in> set (p_labels (payload a))
          \<longrightarrow> backport w a [] =
                (case fails w [] (unmarkMissing a) of
                   None \<Rightarrow>
                     backportMerged w a
                       (getMatchedBackportLabels (p_labels (payload a)) backportLabels)
                       [unmarkMissing a]
                 | Some e \<Rightarrow> (Inl e, [unmarkMissing a])))"
  using assms
  by (simp add: backport_def Let_def io_defs
      rejectionComment_def markMissing_def unmarkMissing_def split: option.splits)

theorem authorization_step_witness:
  "snd (backport ex_world (ex_args ''closed'' None [''backport v9.2.x'']) [])
     = [rejectionComment (ex_args ''closed'' None [''backport v9.2.x'']),
        markMissing (ex_args ''closed'' None [''backport v9.2.x''])]
   \<and> backport ex_world
       (ex_args ''labeled'' (Some ''type/bug'')
          [''backport v9.2.x'', ''missing-labels'', ''type/bug'']) []
     = backportMerged ex_world
         (ex_args ''labeled'' (Some ''type/bug'')
            [''backport v9.2.x'', ''missing-labels'', ''type/bug''])
         [''type/bug'']
         [unmarkMissing (ex_args ''labeled'' (Some ''type/bug'')
            [''backport v9.2.x'', ''missing-labels'', ''type/bug''])]"
proof -
  let ?a1 = "ex_args ''closed'' None [''backport v9.2.x'']"
  let ?a2 = "ex_args ''labeled'' (Some ''type/bug'')
          [''backport v9.2.x'', ''missing-labels'', ''type/bug'']"
  have g1: "passesLabelGate (payload ?a1)" "list_ex labelRegExp_test (p_labels (payload ?a1))"
    and g2: "passesLabelGate (payload ?a2)" "list_ex labelRegExp_test (p_labels (payload ?a2))"
    by (simp_all add: ex_args_def ex_payload_def label_defs)
  have m1: "getMatchedBackportLabels (p_labels (payload ?a1)) backportLabels = []"
    "missingLabels \<notin> set (p_labels (payload ?a1))"
    and m2: "getMatchedBackportLabels (p_labels (payload ?a2)) backportLabels = [''type/bug'']"
    "missingLabels \<in> set (p_labels (payload ?a2))"
    by (simp_all add: ex_args_def ex_payload_def label_defs)
  have f: "fails ex_world t c = None" for t c by (simp add: ex_world_def)
  from authorization_step[OF g1, of ex_world] m1
  have a: "snd (backport ex_world ?a1 []) = [rejectionComment ?a1, markMissing ?a1]"
    by (simp add: f)
  from authorization_step[OF g2, of ex_world] m2
  have b: "backport ex_world ?a2 [] = backportMerged ex_world ?a2 [''type/bug''] [unmarkMissing ?a2]"
    by (simp add: f)
  from a b show ?thesis by simp
qed

text \<open>
  C3, as stated, fails: the label \<open>needs-review\<close> is added to a pull request that carries
  a backport label, no approval label and no \<open>missing-labels\<close>. The event does not pass
  the gate, and the invocation ends without a call.
\<close>

theorem gate_blocks_rejection:
  "list_ex labelRegExp_test [''backport v9.2.x'', ''needs-review'']
   \<and> getMatchedBackportLabels [''backport v9.2.x'', ''needs-review''] backportLabels = []
   \<and> missingLabels \<notin> set [''backport v9.2.x'', ''needs-review'']
   \<and> backport ex_world
        (ex_args ''labeled'' (Some ''needs-review'') [''backport v9.2.x'', ''needs-review'']) []
      = (Inr (), [])"
  by (simp add: backport_def Let_def io_defs ex_defs label_defs)

subsection \<open>Traces\<close>

lemma appendsI: "(\<And>tr. \<exists>ys. snd (m tr) = tr @ ys \<and> list_all P ys) \<Longrightarrow> appends P m"
  by (simp add: appends_def)

lemma appendsD: "appends P m \<Longrightarrow> \<exists>ys. snd (m tr) = tr @ ys \<and> list_all P ys"
  by (simp add: appends_def)

lemma appends_return: "appends P (io_return x)"
  by (simp add: appends_def io_return_def)

lemma appends_throw: "appends P (io_throw e)"
  by (simp add: appends_def io_throw_def)

lemma appends_perform_val: "P c \<Longrightarrow> appends P (perform_val w c f)"
  by (simp add: appends_def perform_val_def split: option.splits)

lemma appends_perform: "P c \<Longrightarrow> appends P (perform w c)"
  by (simp add: perform_def appends_perform_val)

lemma appends_bind:
  assumes "appends P m" and "\<And>x. appends P (f x)"
  shows "appends P (io_bind m f)"
proof (rule appendsI)
  fix tr
  obtain r tr1 where m: "m tr = (r, tr1)" by (cases "m tr")
  from appendsD[OF assms(1), of tr] m obtain ys where ys: "tr1 = tr @ ys" "list_all P ys"
    by auto
  show "\<exists>zs. snd (io_bind m f tr) = tr @ zs \<and> list_all P zs"
  proof (cases r)
    case (Inl e)
    then show ?thesis using m ys by (simp add: io_bind_def)
  next
    case (Inr x)
    from appendsD[OF assms(2), of x tr1] obtain zs where
      "snd (f x tr1) = tr1 @ zs" "list_all P zs" by auto
    then show ?thesis using m ys Inr by (simp add: io_bind_def)
  qed
qed

lemma appends_seq: "appends P m \<Longrightarrow> appends P n \<Longrightarrow> appends P (io_seq m n)"
  by (simp add: io_seq_def appends_bind)

lemma appends_catch:
  assumes "appends P m" and "\<And>e. appends P (h e)"
  shows "appends P (io_catch m h)"
proof (rule appendsI)
  fix tr
  obtain r tr1 where m: "m tr = (r, tr1)" by (cases "m tr")
  from appendsD[OF assms(1), of tr] m obtain ys where ys: "tr1 = tr @ ys" "list_all P ys"
    by auto
  show "\<exists>zs. snd (io_catch m h tr) = tr @ zs \<and> list_all P zs"
  proof (cases r)
    case (Inr x)
    then show ?thesis using m ys by (simp add: io_catch_def)
  next
    case (Inl e)
    from appendsD[OF assms(2), of e tr1] obtain zs where
      "snd (h e tr1) = tr1 @ zs" "list_all P zs" by auto
    then show ?thesis using m ys Inl by (simp add: io_catch_def)
  qed
qed

lemmas appends_intros = appends_return appends_throw appends_perform_val appends_perform
  appends_bind appends_seq appends_catch

lemma appends_cherryPick:
  assumes "\<And>args. P (Git repo args)" "\<And>args. P (GitOutput repo args)" "P (Betterer repo)"
  shows "appends P (cherryPick w repo c)"
  unfolding cherryPick_def isBettererConflict_def fixBettererConflict_def git_def
  by (intro appends_intros assms | simp add: assms appends_intros)+

lemma appends_publish:
  assumes "\<And>args. P (Git repo args)" "P (PullsCreate base body head owner repo title)"
    and "\<And>n m. P (IssuesUpdate repo owner n m)"
    and "\<And>n rs. P (DeleteReviewRequest n repo owner rs)"
    and "\<And>n rs. P (CreateReviewRequest n repo owner rs)"
    and "\<And>n. P (AddLabels n lta owner repo)"
  shows "appends P (publish w base body head lta owner repo title ms mb)"
  unfolding publish_def git_def
  by (intro appends_intros assms
      | simp add: assms appends_intros split: prod.splits option.splits)+


lemma appends_backportOnce:
  assumes "\<And>c. is_attempt_call c \<Longrightarrow> P c"
  shows "appends P (backportOnce w base body c head lta owner repo title ms mb)"
  unfolding backportOnce_def git_def
  by (intro appends_intros appends_cherryPick appends_publish assms | simp)+

lemma appends_attempt:
  assumes "\<And>c. is_attempt_call c \<Longrightarrow> P c"
  shows "appends P (attempt w a c base head lta)"
  unfolding attempt_def Let_def by (rule appends_backportOnce[OF assms])

lemma appends_backportEntry:
  assumes "\<And>c. is_attempt_call c \<Longrightarrow> P c" and "\<And>e. P (failureComment a c base head e)"
  shows "appends P (backportEntry w a c base head lta)"
  unfolding backportEntry_def reportFailure_def
  by (intro appends_intros appends_attempt assms | simp add: failureLabel_def)+

lemma appends_backportLoop:
  assumes "\<And>c. is_attempt_call c \<Longrightarrow> P c" and "\<And>b h e. P (failureComment a c b h e)"
  shows "appends P (backportLoop w a ml c es lta)"
proof (induction es arbitrary: lta)
  case Nil
  show ?case by (simp add: appends_return)
next
  case (Cons entry es)
  obtain b h where entry: "entry = (b, h)" by (cases entry)
  show ?case unfolding entry backportLoop.simps
    by (intro appends_seq appends_backportEntry assms Cons)
qed

text \<open>The first call of an attempt switches to the base branch.\<close>

lemma attempt_starts:
  "\<exists>ys. snd (attempt w a c base head lta tr) = tr @ Git (p_repo (payload a)) [''switch'', base] # ys"
proof -
  let ?sw = "Git (p_repo (payload a)) [''switch'', base]"
  have rest: "\<And>m::unit io. appends (\<lambda>c. True) m \<Longrightarrow>
      \<exists>ys. snd (io_seq (git w (p_repo (payload a)) [''switch'', base]) m tr) = tr @ ?sw # ys"
  proof -
    fix m :: "unit io" assume "appends (\<lambda>c. True) m"
    from appendsD[OF this, of "tr @ [?sw]"] obtain ys where "snd (m (tr @ [?sw])) = (tr @ [?sw]) @ ys"
      by auto
    then show "\<exists>ys. snd (io_seq (git w (p_repo (payload a)) [''switch'', base]) m tr) = tr @ ?sw # ys"
      by (cases "fails w tr ?sw") (simp_all add: io_defs git_def)
  qed
  show ?thesis unfolding attempt_def Let_def backportOnce_def
    by (rule rest) (intro appends_intros appends_cherryPick appends_publish | simp add: git_def)+
qed

lemma keeps_prefix:
  assumes "appends P m"
  shows "\<exists>zs. snd (m (xs @ ys)) = xs @ zs"
  using appendsD[OF assms, of "xs @ ys"] by auto

lemma backportEntry_starts:
  "\<exists>zs. snd (backportEntry w a c b h lta tr) = tr @ Git (p_repo (payload a)) [''switch'', b] # zs"
proof -
  let ?sw = "Git (p_repo (payload a)) [''switch'', b]"
  obtain r t where at: "attempt w a c b h lta tr = (r, t)" by (cases "attempt w a c b h lta tr")
  obtain ys where ys: "t = (tr @ [?sw]) @ ys"
    using attempt_starts[of w a c b h lta tr] at by auto
  show ?thesis
  proof (cases r)
    case (Inr u)
    then show ?thesis using at ys by (simp add: backportEntry_def io_catch_def)
  next
    case (Inl e)
    have "appends (\<lambda>c. True) (reportFailure w a c b h e)"
      unfolding reportFailure_def by (intro appends_intros) simp_all
    from keeps_prefix[OF this, of "tr @ [?sw]" ys]
    show ?thesis using at ys Inl by (simp add: backportEntry_def io_catch_def)
  qed
qed

lemma backportLoop_starts:
  "\<exists>zs. snd (backportLoop w a ml c ((b, h) # es) lta tr)
         = tr @ Git (p_repo (payload a)) [''switch'', b] # zs"
proof -
  let ?sw = "Git (p_repo (payload a)) [''switch'', b]"
  obtain r t where en: "backportEntry w a c b h (lta @ ml) tr = (r, t)"
    by (cases "backportEntry w a c b h (lta @ ml) tr")
  obtain ys where ys: "t = (tr @ [?sw]) @ ys"
    using backportEntry_starts[of w a c b h "lta @ ml" tr] en by auto
  show ?thesis
  proof (cases r)
    case (Inl e)
    then show ?thesis using en ys by (simp add: io_seq_def io_bind_def)
  next
    case (Inr u)
    have "appends (\<lambda>c. True) (backportLoop w a ml c es (lta @ ml))"
      by (rule appends_backportLoop) simp_all
    from keeps_prefix[OF this, of "tr @ [?sw]" ys]
    show ?thesis using en ys Inr by (simp add: io_seq_def io_bind_def)
  qed
qed

lemmas call_defs = pickCall_def conflictsCall_def stageCall_def continueCall_def abortCall_def

subsection \<open>The loop over the entries\<close>

lemma backportEntry_reported:
  assumes "reports_arrive w a"
  shows "backportEntry w a c b h lta tr =
           (Inr (),
            (case fst (attempt w a c b h lta tr) of
               Inr u \<Rightarrow> snd (attempt w a c b h lta tr)
             | Inl e \<Rightarrow> snd (attempt w a c b h lta tr)
                         @ [failureComment a c b h e, failureLabel a]))"
  using assms
  by (cases "attempt w a c b h lta tr"; cases "fst (attempt w a c b h lta tr)")
     (auto simp: backportEntry_def reportFailure_def io_defs reports_arrive_def)

lemma backportLoop_Cons:
  assumes "reports_arrive w a"
  shows "backportLoop w a ml c ((b, h) # es) lta tr =
           backportLoop w a ml c es (lta @ ml) (snd (backportEntry w a c b h (lta @ ml) tr))"
  by (simp add: io_seq_def io_bind_def backportEntry_reported[OF assms])

lemma concat_replicate_commute:
  "concat (replicate n xs) @ xs = xs @ concat (replicate n xs)"
  by (induction n) simp_all

lemma backportLoop_returns:
  assumes "reports_arrive w a"
  shows "fst (backportLoop w a ml c es lta tr) = Inr ()"
proof (induction es arbitrary: lta tr)
  case Nil
  show ?case by (simp add: io_return_def)
next
  case (Cons entry es)
  obtain b h where entry: "entry = (b, h)" by (cases entry)
  show ?case unfolding entry
    by (simp add: io_seq_def io_bind_def backportEntry_reported[OF assms] Cons)
qed

lemma backportLoop_append:
  assumes "reports_arrive w a"
  shows "backportLoop w a ml c (es1 @ es2) lta tr =
           backportLoop w a ml c es2 (lta @ concat (replicate (length es1) ml))
             (snd (backportLoop w a ml c es1 lta tr))"
proof (induction es1 arbitrary: lta tr)
  case Nil
  show ?case by (simp add: io_return_def)
next
  case (Cons entry es1)
  obtain b h where entry: "entry = (b, h)" by (cases entry)
  show ?case unfolding entry
    by (simp add: io_seq_def io_bind_def backportEntry_reported[OF assms] Cons)
qed

lemma backportLoop_attempts:
  assumes "reports_arrive w a" and "(b, h) \<in> set es"
  shows "Git (p_repo (payload a)) [''switch'', b] \<in> set (snd (backportLoop w a ml c es lta tr))"
proof -
  from assms(2) obtain es1 es2 where es: "es = es1 @ (b, h) # es2"
    by (auto simp: in_set_conv_decomp)
  let ?lta = "lta @ concat (replicate (length es1) ml)"
  let ?tr1 = "snd (backportLoop w a ml c es1 lta tr)"
  let ?sw = "Git (p_repo (payload a)) [''switch'', b]"
  obtain ys where ys: "snd (attempt w a c b h (?lta @ ml) ?tr1) = ?tr1 @ ?sw # ys"
    using attempt_starts by blast
  have "appends (\<lambda>c. True) (backportLoop w a ml c es2 (?lta @ ml))"
    by (rule appends_backportLoop) simp_all
  then have grow: "\<And>t. set t \<subseteq> set (snd (backportLoop w a ml c es2 (?lta @ ml) t))"
    by (metis appendsD set_append sup_ge1)
  have "?sw \<in> set (snd (backportEntry w a c b h (?lta @ ml) ?tr1))"
    using ys by (simp add: backportEntry_reported[OF assms(1)] split: sum.splits)
  then have "?sw \<in> set (snd (backportLoop w a ml c es2 (?lta @ ml)
                (snd (backportEntry w a c b h (?lta @ ml) ?tr1))))"
    using grow by blast
  then show ?thesis
    unfolding es backportLoop_append[OF assms(1)] backportLoop_Cons[OF assms(1)] .
qed

text \<open>
  C4, as amended. Suppose the two calls that report a failed attempt on the original pull
  request (the failure comment and the \<open>backport-failed\<close> label) succeed whenever they
  are issued. Then for every entry \<open>(b, h)\<close> of the map, whatever happened at the entries
  before it: the attempt for \<open>(b, h)\<close> runs with the labels accumulated so far; if it
  throws \<open>e\<close>, the error is caught, the comment with the recovery script for \<open>e\<close> and
  the label follow in the trace; and in either case the loop goes on with the entries
  after \<open>(b, h)\<close>. The loop returns normally, and every entry is attempted: the trace
  has the switch to its base branch.
\<close>

theorem failure_isolated:
  assumes "reports_arrive w a"
  shows "backportLoop w a ml c (es1 @ (b, h) # es2) lta tr =
           (let lta1 = lta @ concat (replicate (Suc (length es1)) ml);
                tr1 = snd (backportLoop w a ml c es1 lta tr);
                r = attempt w a c b h lta1 tr1
            in backportLoop w a ml c es2 lta1
                 (case fst r of
                    Inr u \<Rightarrow> snd r
                  | Inl e \<Rightarrow> snd r @ [failureComment a c b h e, failureLabel a]))
       \<and> fst (backportLoop w a ml c es lta tr) = Inr ()
       \<and> (\<forall>entry \<in> set es.
             Git (p_repo (payload a)) [''switch'', fst entry]
               \<in> set (snd (backportLoop w a ml c es lta tr)))"
proof (intro conjI ballI)
  show "fst (backportLoop w a ml c es lta tr) = Inr ()"
    by (rule backportLoop_returns[OF assms])
next
  fix entry assume "entry \<in> set es"
  then show "Git (p_repo (payload a)) [''switch'', fst entry]
               \<in> set (snd (backportLoop w a ml c es lta tr))"
    using backportLoop_attempts[OF assms, of "fst entry" "snd entry" es] by simp
next
  show "backportLoop w a ml c (es1 @ (b, h) # es2) lta tr =
           (let lta1 = lta @ concat (replicate (Suc (length es1)) ml);
                tr1 = snd (backportLoop w a ml c es1 lta tr);
                r = attempt w a c b h lta1 tr1
            in backportLoop w a ml c es2 lta1
                 (case fst r of
                    Inr u \<Rightarrow> snd r
                  | Inl e \<Rightarrow> snd r @ [failureComment a c b h e, failureLabel a]))"
    unfolding backportLoop_append[OF assms] backportLoop_Cons[OF assms]
    by (simp add: Let_def backportEntry_reported[OF assms] concat_replicate_commute)
qed


theorem failure_isolated_witness:
  "reports_arrive ex_world_git_down (ex_args ''closed'' None [])
   \<and> fst (backportLoop ex_world_git_down (ex_args ''closed'' None []) [''type/bug''] ''abc''
            [(''v1'', ''h1''), (''v2'', ''h2'')] [] []) = Inr ()
   \<and> Git ''grafana'' [''switch'', ''v2'']
       \<in> set (snd (backportLoop ex_world_git_down (ex_args ''closed'' None []) [''type/bug'']
                     ''abc'' [(''v1'', ''h1''), (''v2'', ''h2'')] [] []))"
proof -
  have ra: "reports_arrive ex_world_git_down (ex_args ''closed'' None [])"
    by (simp add: reports_arrive_def ex_world_git_down_def ex_defs failureLabel_def
        failureComment_def)
  note th = failure_isolated[OF ra, of "[''type/bug'']" "''abc''" "[(''v1'', ''h1'')]" "''v2''"
      "''h2''" "[]" "[]" "[]" "[(''v1'', ''h1''), (''v2'', ''h2'')]"]
  from th[THEN conjunct2, THEN conjunct1]
  have "fst (backportLoop ex_world_git_down (ex_args ''closed'' None []) [''type/bug'']
            ''abc'' [(''v1'', ''h1''), (''v2'', ''h2'')] [] []) = Inr ()" .
  moreover from th[THEN conjunct2, THEN conjunct2] have "Git (p_repo (payload (ex_args ''closed'' None []))) [''switch'', ''v2'']
       \<in> set (snd (backportLoop ex_world_git_down (ex_args ''closed'' None []) [''type/bug'']
                     ''abc'' [(''v1'', ''h1''), (''v2'', ''h2'')] [] []))"
    by (simp del: backportLoop.simps)
  moreover have "p_repo (payload (ex_args ''closed'' None [])) = ''grafana''"
    by (simp add: ex_defs)
  ultimately show ?thesis using ra by (simp del: backportLoop.simps)
qed

text \<open>
  C4, as stated, fails: with two entries, every \<open>git\<close> command failing and the
  comment call failing too, the error of the comment call leaves the loop, and the
  second entry is never attempted.
\<close>

theorem report_failure_stops_loop:
  "getBackportBaseToHead ''closed'' None [''backport v1'', ''backport v2'', ''type/bug''] 7
     = Inr [(''v1'', ''backport-7-to-v1''), (''v2'', ''backport-7-to-v2'')]
   \<and> backport ex_world_down
        (ex_args ''closed'' None [''backport v1'', ''backport v2'', ''type/bug'']) []
      = (Inl (RequestError ''rate limit''),
         [CloneRepo ''t'' ''org'' ''grafana'', Git ''grafana'' [''switch'', ''v1''],
          failureComment (ex_args ''closed'' None [''backport v1'', ''backport v2'', ''type/bug''])
            ''abc'' ''v1'' ''backport-7-to-v1'' (Error ''git failed'')])"
  by (simp add: backport_def backportMerged_def Let_def io_defs ex_defs label_defs map_defs
      Object_keys_def Object_entries_def show_nat.simps is_array_index_def is_digit_def
      ex_world_down_def backportEntry_def attempt_def backportOnce_def git_def
      reportFailure_def failureComment_def failureLabel_def)

subsection \<open>Proceeding without an approval label\<close>

lemma comment_bodies_differ:
  "getFailedBackportCommentBody b c m h \<noteq> missingLabelsCommentBody l"
  by (simp add: getFailedBackportCommentBody_def missingLabelsCommentBody_def join_lines_def)

text \<open>
  C10, as amended. For a merged pull request whose event passes the label gate, whose
  label set has a backport label, no approval label and \<open>missing-labels\<close>, and whose
  resolved map is not empty: the invocation is the clone followed by the loop over the
  entries of the map; its first call is the clone; it never posts the rejection comment;
  and when the clone succeeds, the next call switches to the base branch of the first
  entry.
\<close>

theorem proceeds_without_approval:
  assumes "passesLabelGate (payload a)"
    and "list_ex labelRegExp_test (p_labels (payload a))"
    and "getMatchedBackportLabels (p_labels (payload a)) backportLabels = []"
    and "missingLabels \<in> set (p_labels (payload a))"
    and "p_merged (payload a)"
    and "getBackportBaseToHead (p_action (payload a)) (p_label (payload a))
             (p_labels (payload a)) (p_number (payload a)) = Inr obj"
    and "obj \<noteq> []"
  shows "backport w a [] =
           io_seq (perform w (cloneCall a))
             (backportLoop w a [] (commitOf a) (Object_entries obj) (labelsToAdd a)) []
       \<and> (\<exists>rest. snd (backport w a []) = cloneCall a # rest)
       \<and> rejectionComment a \<notin> set (snd (backport w a []))
       \<and> (fails w [] (cloneCall a) = None \<longrightarrow>
            (\<exists>rest. snd (backport w a []) =
               cloneCall a # Git (p_repo (payload a)) [''switch'', fst (hd (Object_entries obj))]
                 # rest))"
proof -
  let ?loop = "backportLoop w a [] (commitOf a) (Object_entries obj) (labelsToAdd a)"
  have eq: "backport w a [] = io_seq (perform w (cloneCall a)) ?loop []"
    using assms
    by (simp add: backport_def backportMerged_nonempty Let_def
        io_return_def io_seq_def io_bind_def)
  have notrej: "\<And>c. is_attempt_call c \<Longrightarrow> c \<noteq> rejectionComment a"
    by (auto simp: rejectionComment_def)
  have notrej': "\<And>b h e. failureComment a (commitOf a) b h e \<noteq> rejectionComment a"
    by (simp add: failureComment_def rejectionComment_def comment_bodies_differ)
  have l: "appends (\<lambda>c. c \<noteq> rejectionComment a) ?loop"
    by (rule appends_backportLoop) (simp_all add: notrej notrej')
  have "appends (\<lambda>c. c \<noteq> rejectionComment a) (perform w (cloneCall a))"
    by (rule appends_perform) (simp add: cloneCall_def rejectionComment_def)
  from appends_seq[OF this l]
  have "appends (\<lambda>c. c \<noteq> rejectionComment a) (io_seq (perform w (cloneCall a)) ?loop)" .
  from appendsD[OF this, of "[]"] have norej: "rejectionComment a \<notin> set (snd (backport w a []))"
    unfolding eq by (auto simp: list_all_iff)
  obtain entry es where es: "Object_entries obj = entry # es"
    using assms(7) length_Object_entries[of obj] by (cases "Object_entries obj") auto
  obtain b h where entry: "entry = (b, h)" by (cases entry)
  have first: "\<exists>rest. snd (backport w a []) = cloneCall a # rest"
  proof (cases "fails w [] (cloneCall a)")
    case (Some e)
    then show ?thesis unfolding eq by (simp add: io_defs)
  next
    case None
    have "appends (\<lambda>c. True) ?loop" by (rule appends_backportLoop) simp_all
    from appendsD[OF this, of "[cloneCall a]"] show ?thesis
      unfolding eq using None by (auto simp: io_defs)
  qed
  have second: "\<exists>rest. snd (backport w a []) =
               cloneCall a # Git (p_repo (payload a)) [''switch'', fst (hd (Object_entries obj))]
                 # rest" if ok: "fails w [] (cloneCall a) = None"
    using backportLoop_starts[of w a "[]" "commitOf a" b h es "labelsToAdd a" "[cloneCall a]"] ok
    unfolding eq es entry by (simp add: io_defs)
  from eq first norej second show ?thesis by blast
qed


theorem proceeds_without_approval_witness:
  "(\<exists>rest. snd (backport ex_world
        (ex_args ''closed'' None [''backport v9.2.x'', ''missing-labels'']) [])
      = CloneRepo ''t'' ''org'' ''grafana'' # Git ''grafana'' [''switch'', ''v9.2.x''] # rest)
   \<and> rejectionComment (ex_args ''closed'' None [''backport v9.2.x'', ''missing-labels''])
       \<notin> set (snd (backport ex_world
              (ex_args ''closed'' None [''backport v9.2.x'', ''missing-labels'']) []))"
proof -
  let ?a = "ex_args ''closed'' None [''backport v9.2.x'', ''missing-labels'']"
  have h: "passesLabelGate (payload ?a)" "list_ex labelRegExp_test (p_labels (payload ?a))"
    "getMatchedBackportLabels (p_labels (payload ?a)) backportLabels = []"
    "missingLabels \<in> set (p_labels (payload ?a))" "p_merged (payload ?a)"
    by (simp_all add: ex_args_def ex_payload_def label_defs)
  have m: "getBackportBaseToHead (p_action (payload ?a)) (p_label (payload ?a))
             (p_labels (payload ?a)) (p_number (payload ?a))
           = Inr [(''v9.2.x'', ''backport-7-to-v9.2.x'')]"
    by (simp add: ex_args_def ex_payload_def map_defs match_here_def not_space_def
        show_nat.simps)
  have e: "Object_entries [(''v9.2.x'', ''backport-7-to-v9.2.x'')]
      = [(''v9.2.x'', ''backport-7-to-v9.2.x'')]"
    by (simp add: Object_entries_def is_array_index_def is_digit_def)
  have c: "cloneCall ?a = CloneRepo ''t'' ''org'' ''grafana''" "p_repo (payload ?a) = ''grafana''"
    "fails ex_world [] (cloneCall ?a) = None"
    by (simp_all add: cloneCall_def ex_defs)
  have ne: "[(''v9.2.x'', ''backport-7-to-v9.2.x'')] \<noteq> []" by simp
  note th = proceeds_without_approval[OF h m ne, of ex_world]
  from th[THEN conjunct2, THEN conjunct2, THEN conjunct2]
  have "\<exists>rest. snd (backport ex_world ?a [])
      = CloneRepo ''t'' ''org'' ''grafana'' # Git ''grafana'' [''switch'', ''v9.2.x''] # rest"
    unfolding e c by (simp add: ex_world_def)
  moreover from th[THEN conjunct2, THEN conjunct2, THEN conjunct1]
  have "rejectionComment ?a \<notin> set (snd (backport ex_world ?a []))" .
  ultimately show ?thesis by simp
qed

text \<open>
  C10, as stated, fails: the label \<open>needs-review\<close> is added to a merged pull request
  that carries a backport label, \<open>missing-labels\<close> and no approval label. The event
  does not pass the gate of lines 255-260, and the invocation ends without a call.
\<close>

theorem gate_blocks_backport:
  "p_merged (ex_payload ''labeled'' (Some ''needs-review'')
       [''backport v9.2.x'', ''missing-labels'', ''needs-review''])
   \<and> list_ex labelRegExp_test [''backport v9.2.x'', ''missing-labels'', ''needs-review'']
   \<and> getMatchedBackportLabels [''backport v9.2.x'', ''missing-labels'', ''needs-review'']
        backportLabels = []
   \<and> missingLabels \<in> set [''backport v9.2.x'', ''missing-labels'', ''needs-review'']
   \<and> backport ex_world
        (ex_args ''labeled'' (Some ''needs-review'')
           [''backport v9.2.x'', ''missing-labels'', ''needs-review'']) []
      = (Inr (), [])"
  by (simp add: backport_def Let_def io_defs ex_defs label_defs)

subsection \<open>The cherry-pick and its handlers\<close>

lemma fix_first_call:
  "\<exists>ys. snd (fixBettererConflict w repo t) = t @ Betterer repo # ys"
  by (simp add: fixBettererConflict_def io_defs git_def split: option.splits)

text \<open>
  C2, as amended. Suppose the cherry-pick fails with \<open>e\<close> and the listing of the unmerged
  files succeeds. Betterer is run if and only if the trimmed listing is exactly
  \<open>.betterer.results\<close>. In that case, when betterer, the staging of the file and the
  non-interactive \<open>cherry-pick --continue\<close> succeed, the cherry-pick step succeeds with
  exactly these calls; when one of them fails with \<open>e2\<close>, the cherry-pick is aborted
  and, the abort succeeding, \<open>e2\<close> is thrown. For any other listing the cherry-pick is
  aborted and, the abort succeeding, the original error \<open>e\<close> is thrown. Whenever the
  cherry-pick step throws, \<open>backportOnce\<close> ends with that error and that trace: nothing
  is pushed and no pull request is created.
\<close>

theorem cherry_pick_conflict:
  assumes "fails w tr (pickCall repo c) = Some e"
    and "fails w (tr @ [pickCall repo c]) (conflictsCall repo) = None"
  shows "(let t1 = tr @ [pickCall repo c, conflictsCall repo];
              listing = trim (stdout_of w (tr @ [pickCall repo c]))
          in ((Betterer repo \<in> set (drop (length tr) (snd (cherryPick w repo c tr))))
                = (listing = BETTERER_RESULTS_PATH))
           \<and> (listing = BETTERER_RESULTS_PATH
                \<and> fails w t1 (Betterer repo) = None
                \<and> fails w (t1 @ [Betterer repo]) (stageCall repo) = None
                \<and> fails w (t1 @ [Betterer repo, stageCall repo]) (continueCall repo) = None
               \<longrightarrow> cherryPick w repo c tr
                     = (Inr (), t1 @ [Betterer repo, stageCall repo, continueCall repo]))
           \<and> (listing = BETTERER_RESULTS_PATH \<and> fixBettererConflict w repo t1 = (Inl e2, t2)
               \<longrightarrow> snd (cherryPick w repo c tr) = t2 @ [abortCall repo]
                   \<and> (fails w t2 (abortCall repo) = None
                       \<longrightarrow> fst (cherryPick w repo c tr) = Inl e2))
           \<and> (listing \<noteq> BETTERER_RESULTS_PATH
               \<longrightarrow> snd (cherryPick w repo c tr) = t1 @ [abortCall repo]
                   \<and> (fails w t1 (abortCall repo) = None
                       \<longrightarrow> fst (cherryPick w repo c tr) = Inl e))
           \<and> (fst (cherryPick w repo c tr) \<noteq> Inr ()
                \<and> git w repo [''switch'', base] tr0 = (Inr (), tr1)
                \<and> git w repo [''switch'', ''--create'', head] tr1 = (Inr (), tr)
               \<longrightarrow> backportOnce w base body c head lta owner repo title ms mb tr0
                   = cherryPick w repo c tr))"
proof -
  let ?t1 = "tr @ [pickCall repo c, conflictsCall repo]"
  let ?listing = "trim (stdout_of w (tr @ [pickCall repo c]))"
  have pick: "git w repo [''cherry-pick'', ''-x'', c] tr = (Inl e, tr @ [pickCall repo c])"
    using assms(1) by (simp add: git_def io_defs call_defs)
  have conf: "isBettererConflict w repo (tr @ [pickCall repo c])
      = (Inr (?listing = BETTERER_RESULTS_PATH), ?t1)"
    using assms(2) by (simp add: isBettererConflict_def io_defs call_defs)
  have abort: "\<And>x t. io_seq (git w repo [''cherry-pick'', ''--abort'']) (io_throw x) t
      = ((case fails w t (abortCall repo) of None \<Rightarrow> Inl x | Some e3 \<Rightarrow> Inl e3),
         t @ [abortCall repo])"
    by (simp add: git_def io_defs call_defs split: option.splits)
  have yes: "cherryPick w repo c tr =
      io_catch (fixBettererConflict w repo)
        (\<lambda>x. io_seq (git w repo [''cherry-pick'', ''--abort'']) (io_throw x)) ?t1"
    if "?listing = BETTERER_RESULTS_PATH"
    using that pick conf by (simp add: cherryPick_def io_catch_def io_bind_def)
  have no: "cherryPick w repo c tr =
      io_seq (git w repo [''cherry-pick'', ''--abort'']) (io_throw e) ?t1"
    if "?listing \<noteq> BETTERER_RESULTS_PATH"
    using that pick conf by (simp add: cherryPick_def io_catch_def io_bind_def)
  have c1: "(Betterer repo \<in> set (drop (length tr) (snd (cherryPick w repo c tr))))
                = (?listing = BETTERER_RESULTS_PATH)"
  proof (cases "?listing = BETTERER_RESULTS_PATH")
    case True
    obtain r t where f: "fixBettererConflict w repo ?t1 = (r, t)"
      by (cases "fixBettererConflict w repo ?t1")
    obtain ys where ys: "t = ?t1 @ Betterer repo # ys"
      using fix_first_call[of w repo ?t1] f by auto
    show ?thesis using True f ys
      by (cases r) (simp_all add: yes io_catch_def abort)
  next
    case False
    then show ?thesis by (simp add: no abort call_defs)
  qed
  have c2: "cherryPick w repo c tr
             = (Inr (), ?t1 @ [Betterer repo, stageCall repo, continueCall repo])"
    if "?listing = BETTERER_RESULTS_PATH" "fails w ?t1 (Betterer repo) = None"
      "fails w (?t1 @ [Betterer repo]) (stageCall repo) = None"
      "fails w (?t1 @ [Betterer repo, stageCall repo]) (continueCall repo) = None"
    using that
    by (simp add: yes[OF that(1)] fixBettererConflict_def git_def io_defs call_defs)
  have c3: "snd (cherryPick w repo c tr) = t2 @ [abortCall repo]
          \<and> (fails w t2 (abortCall repo) = None \<longrightarrow> fst (cherryPick w repo c tr) = Inl e2)"
    if "?listing = BETTERER_RESULTS_PATH" "fixBettererConflict w repo ?t1 = (Inl e2, t2)"
    using that(2) by (simp add: yes[OF that(1)] io_catch_def abort split: option.splits)
  have c4: "snd (cherryPick w repo c tr) = ?t1 @ [abortCall repo]
          \<and> (fails w ?t1 (abortCall repo) = None \<longrightarrow> fst (cherryPick w repo c tr) = Inl e)"
    if "?listing \<noteq> BETTERER_RESULTS_PATH"
    by (simp add: no[OF that] abort split: option.splits)
  have c5: "backportOnce w base body c head lta owner repo title ms mb tr0
              = cherryPick w repo c tr"
    if "fst (cherryPick w repo c tr) \<noteq> Inr ()"
      "git w repo [''switch'', base] tr0 = (Inr (), tr1)"
      "git w repo [''switch'', ''--create'', head] tr1 = (Inr (), tr)"
    using that
    by (cases "cherryPick w repo c tr"; cases "fst (cherryPick w repo c tr)")
       (auto simp: backportOnce_def io_seq_def io_bind_def)
  from c1 c2 c3 c4 c5 show ?thesis unfolding Let_def by blast
qed

lemma trim_listing: "trim (''.betterer.results'' @ [CHR 0x0A]) = BETTERER_RESULTS_PATH"
  by (simp add: trim_def js_space_def BETTERER_RESULTS_PATH_def)

theorem cherry_pick_conflict_witness:
  "cherryPick (ex_world_conflict (''.betterer.results'' @ [CHR 0x0A])) ''grafana'' ''abc'' []
     = (Inr (),
        [pickCall ''grafana'' ''abc'', conflictsCall ''grafana'', Betterer ''grafana'',
         stageCall ''grafana'', continueCall ''grafana''])
   \<and> cherryPick (ex_world_conflict (''pkg/api.go'' @ [CHR 0x0A])) ''grafana'' ''abc'' []
     = (Inl (Error ''conflict''),
        [pickCall ''grafana'' ''abc'', conflictsCall ''grafana'', abortCall ''grafana''])"
proof -
  let ?w1 = "ex_world_conflict (''.betterer.results'' @ [CHR 0x0A])"
  let ?w2 = "ex_world_conflict (''pkg/api.go'' @ [CHR 0x0A])"
  have f1: "fails ?w1 [] (pickCall ''grafana'' ''abc'') = Some (Error ''conflict'')"
    and f2: "fails ?w1 ([] @ [pickCall ''grafana'' ''abc'']) (conflictsCall ''grafana'') = None"
    and g1: "fails ?w2 [] (pickCall ''grafana'' ''abc'') = Some (Error ''conflict'')"
    and g2: "fails ?w2 ([] @ [pickCall ''grafana'' ''abc'']) (conflictsCall ''grafana'') = None"
    by (simp_all add: ex_world_conflict_def ex_world_def call_defs)
  have l2: "trim (''pkg/api.go'' @ [CHR 0x0A]) \<noteq> BETTERER_RESULTS_PATH"
    by (simp add: trim_def js_space_def BETTERER_RESULTS_PATH_def)
  have s1: "stdout_of ?w1 t = ''.betterer.results'' @ [CHR 0x0A]"
    and s2: "stdout_of ?w2 t = ''pkg/api.go'' @ [CHR 0x0A]" for t
    by (simp_all add: ex_world_conflict_def ex_world_def)
  have ok1: "fails ?w1 t (Betterer ''grafana'') = None" "fails ?w1 t (stageCall ''grafana'') = None"
    "fails ?w1 t (continueCall ''grafana'') = None" for t
    by (simp_all add: ex_world_conflict_def ex_world_def call_defs)
  have ok2: "fails ?w2 t (abortCall ''grafana'') = None" for t
    by (simp add: ex_world_conflict_def ex_world_def call_defs)
  from cherry_pick_conflict[OF f1 f2]
  have a: "cherryPick ?w1 ''grafana'' ''abc'' []
     = (Inr (),
        [pickCall ''grafana'' ''abc'', conflictsCall ''grafana'', Betterer ''grafana'',
         stageCall ''grafana'', continueCall ''grafana''])"
    unfolding Let_def s1 trim_listing using ok1 by simp
  from cherry_pick_conflict[OF g1 g2]
  have b: "cherryPick ?w2 ''grafana'' ''abc'' []
     = (Inl (Error ''conflict''),
        [pickCall ''grafana'' ''abc'', conflictsCall ''grafana'', abortCall ''grafana''])"
    unfolding Let_def s2 using ok2 l2 by (simp add: prod_eq_iff)
  from a b show ?thesis by simp
qed

text \<open>
  C2, as stated, fails: the cherry-pick fails with \<open>conflict\<close>, the only unmerged file
  is \<open>.betterer.results\<close>, and betterer fails with \<open>betterer crashed\<close>. The error
  thrown after the abort is the one of betterer, not the one of the cherry-pick.
\<close>

theorem auto_fix_error_surfaced:
  "fails ex_world_betterer_down [] (pickCall ''grafana'' ''abc'') = Some (Error ''conflict'')
   \<and> cherryPick ex_world_betterer_down ''grafana'' ''abc'' []
     = (Inl (Error ''betterer crashed''),
        [pickCall ''grafana'' ''abc'', conflictsCall ''grafana'', Betterer ''grafana'',
         abortCall ''grafana''])"
  by (simp add: cherryPick_def isBettererConflict_def fixBettererConflict_def git_def io_defs
      call_defs ex_world_betterer_down_def ex_world_def trim_def js_space_def
      BETTERER_RESULTS_PATH_def)


subsection \<open>The enterprise check\<close>

text \<open>
  C5, as amended. When \<open>source_branch\<close>, \<open>pr_number\<close> and \<open>source_sha\<close> are non-empty
  as \<open>core.getInput\<close> returns them, that is, after trimming: the branch \<open>source_branch\<close>
  is looked up first and, when the lookup succeeds, the ref is created at its commit;
  otherwise \<open>target_branch\<close> (or \<open>main\<close> when none is supplied) is looked up, then
  \<open>main\<close>, and the ref is created at the commit of the first one found; when none is
  found the action fails. When creating the ref succeeds the action succeeds; when it
  fails with the request error \<open>Reference already exists\<close>, the ref is force-updated to
  the same commit and the outcome of the action is the one of the update; any other error
  of the create call is the outcome of the action. Branch and ref names are built from
  the trimmed inputs.
\<close>

theorem enterprise_ref:
  assumes "getInput (source_branch i) \<noteq> []" and "getInput (pr_number i) \<noteq> []"
    and "getInput (source_sha i) \<noteq> []"
  shows "(let sb = GetBranch (getInput (source_branch i)); tb = GetBranch (targetOrMain i);
              mb = GetBranch ''main'';
              sync = createOrUpdateRef w (getInput (pr_number i)) (getInput (source_branch i))
          in onTriggered w i [] =
               (if fails w [] sb = None
                  then sync (branch_sha w []) (getInput (source_sha i)) [sb]
                else if fails w [sb] tb = None
                  then sync (branch_sha w [sb]) (getInput (source_sha i)) [sb, tb]
                else if fails w [sb, tb] mb = None
                  then sync (branch_sha w [sb, tb]) (getInput (source_sha i)) [sb, tb, mb]
                else (Inl (Error ''error retrieving main branch''), [sb, tb, mb])))
       \<and> (let create = createRefCall i sha; update = updateRefCall i sha;
               sync = createOrUpdateRef w (getInput (pr_number i)) (getInput (source_branch i))
                        sha (getInput (source_sha i)) tr
           in (fails w tr create = None \<longrightarrow> sync = (Inr (), tr @ [create]))
            \<and> (fails w tr create = Some (RequestError ''Reference already exists'')
                \<longrightarrow> sync = ((case fails w (tr @ [create]) update of
                                None \<Rightarrow> Inr () | Some e2 \<Rightarrow> Inl e2),
                             tr @ [create, update]))
            \<and> (fails w tr create = Some err
                  \<and> err \<noteq> RequestError ''Reference already exists''
                \<longrightarrow> sync = (Inl err, tr @ [create])))"
proof -
  have lookups: "(let sb = GetBranch (getInput (source_branch i)); tb = GetBranch (targetOrMain i);
              mb = GetBranch ''main'';
              sync = createOrUpdateRef w (getInput (pr_number i)) (getInput (source_branch i))
          in onTriggered w i [] =
               (if fails w [] sb = None
                  then sync (branch_sha w []) (getInput (source_sha i)) [sb]
                else if fails w [sb] tb = None
                  then sync (branch_sha w [sb]) (getInput (source_sha i)) [sb, tb]
                else if fails w [sb, tb] mb = None
                  then sync (branch_sha w [sb, tb]) (getInput (source_sha i)) [sb, tb, mb]
                else (Inl (Error ''error retrieving main branch''), [sb, tb, mb])))"
    using assms
    by (auto simp: onTriggered_def Let_def getBranch_def io_bind_def io_throw_def
        targetOrMain_def split: option.splits)
  have refs: "(let create = createRefCall i sha; update = updateRefCall i sha;
               sync = createOrUpdateRef w (getInput (pr_number i)) (getInput (source_branch i))
                        sha (getInput (source_sha i)) tr
           in (fails w tr create = None \<longrightarrow> sync = (Inr (), tr @ [create]))
            \<and> (fails w tr create = Some (RequestError ''Reference already exists'')
                \<longrightarrow> sync = ((case fails w (tr @ [create]) update of
                                None \<Rightarrow> Inr () | Some e2 \<Rightarrow> Inl e2),
                             tr @ [create, update]))
            \<and> (fails w tr create = Some err
                  \<and> err \<noteq> RequestError ''Reference already exists''
                \<longrightarrow> sync = (Inl err, tr @ [create])))"
    by (cases err)
       (auto simp: createOrUpdateRef_def Let_def io_defs createRefCall_def updateRefCall_def
          split: option.splits exn.splits)
  from lookups refs show ?thesis by blast
qed

lemma ex_inputs_trimmed:
  "getInput (source_branch ex_inputs) = ''feature''" "getInput (pr_number ex_inputs) = ''12''"
  "getInput (source_sha ex_inputs) = ''ff00''" "getInput (target_branch ex_inputs) = []"
  by (simp_all add: ex_inputs_def getInput_def trim_def js_space_def)

theorem enterprise_ref_witness:
  "onTriggered ex_world_ref_exists ex_inputs []
     = createOrUpdateRef ex_world_ref_exists ''12'' ''feature'' ''5e1f'' ''ff00''
         [GetBranch ''feature'', GetBranch ''main'']
   \<and> createOrUpdateRef ex_world_ref_exists ''12'' ''feature'' ''5e1f'' ''ff00''
         [GetBranch ''feature'', GetBranch ''main'']
     = (Inr (),
        [GetBranch ''feature'', GetBranch ''main'',
         CreateRef ''refs/heads/prc-12-ff00/feature'' ''5e1f'',
         UpdateRef ''heads/prc-12-ff00/feature'' ''5e1f'' True])"
  using enterprise_ref[of ex_inputs ex_world_ref_exists "''5e1f''"
      "[GetBranch ''feature'', GetBranch ''main'']"]
  by (simp add: ex_inputs_trimmed ex_world_ref_exists_def ex_world_def Let_def targetOrMain_def
      createRefCall_def updateRefCall_def)

text \<open>
  C5, as stated, fails twice. With a \<open>source_branch\<close> of two spaces, which is not empty,
  \<open>core.getInput\<close> returns the empty string and the action fails with
  \<open>Missing source branch\<close> before any call. And when the ref exists and the forced update
  fails, the action fails with the error of the update.
\<close>

theorem blank_input_or_failed_update:
  "source_branch ex_inputs_blank \<noteq> [] \<and> pr_number ex_inputs_blank \<noteq> []
   \<and> source_sha ex_inputs_blank \<noteq> []
   \<and> onTriggered ex_world ex_inputs_blank [] = (Inl (Error ''Missing source branch''), [])
   \<and> onTriggered ex_world_ref_locked ex_inputs []
     = (Inl (RequestError ''Server Error''),
        [GetBranch ''feature'', CreateRef ''refs/heads/prc-12-ff00/feature'' ''5e1f'',
         UpdateRef ''heads/prc-12-ff00/feature'' ''5e1f'' True])"
  by (simp add: onTriggered_def createOrUpdateRef_def getBranch_def Let_def io_defs
      ex_inputs_blank_def ex_inputs_def getInput_def trim_def js_space_def
      ex_world_ref_locked_def ex_world_def)

subsection \<open>Labels of the new pull requests\<close>

lemma labels_of_later_entries:
  "set (lta @ concat (replicate (Suc k) ml)) = set lta \<union> set ml"
  by (induction k) auto

text \<open>
  C9. The claim: every created pull request gets the caller's labels and the matched
  approval labels, each once, also the second and later ones of an invocation. With two
  backport labels, the approval label \<open>type/bug\<close> and the caller's label \<open>backport\<close>,
  the call that labels the second pull request lists \<open>type/bug\<close> twice.
\<close>

theorem labels_repeat_on_second_branch:
  "backport ex_world (ex_args ''closed'' None [''backport v1'', ''type/bug'', ''backport v2'']) []
     = (Inr (),
        [CloneRepo ''t'' ''org'' ''grafana'',
         Git ''grafana'' [''switch'', ''v1''],
         Git ''grafana'' [''switch'', ''--create'', ''backport-7-to-v1''],
         Git ''grafana'' [''cherry-pick'', ''-x'', ''abc''],
         Git ''grafana'' [''push'', ''--set-upstream'', ''origin'', ''backport-7-to-v1''],
         PullsCreate ''v1'' ''Backport abc from #7'' ''backport-7-to-v1'' ''org'' ''grafana''
           ''Backport'',
         AddLabels 105 [''backport'', ''type/bug''] ''org'' ''grafana'',
         Git ''grafana'' [''switch'', ''v2''],
         Git ''grafana'' [''switch'', ''--create'', ''backport-7-to-v2''],
         Git ''grafana'' [''cherry-pick'', ''-x'', ''abc''],
         Git ''grafana'' [''push'', ''--set-upstream'', ''origin'', ''backport-7-to-v2''],
         PullsCreate ''v2'' ''Backport abc from #7'' ''backport-7-to-v2'' ''org'' ''grafana''
           ''Backport'',
         AddLabels 111 [''backport'', ''type/bug'', ''type/bug''] ''org'' ''grafana''])"
  by (simp add: backport_def backportMerged_def Let_def io_defs ex_defs label_defs map_defs
      Object_keys_def Object_entries_def show_nat.simps is_array_index_def is_digit_def
      backportEntry_def attempt_def backportOnce_def git_def cherryPick_def publish_def)


end
